theory Spec2Isabelle
  imports Main "HOL-Library.Sublist" "HOL-Library.List_Lexorder" "HOL-Library.Char_ord"
begin

section \<open>Go strings and paths\<close>

text \<open>
  A Go string is a byte sequence and is modelled as a \<open>string\<close> (a \<open>char list\<close>); a nil
  slice and an empty slice are both the empty list. The functions below are the
  standard-library functions the builder calls, restricted to the separators it passes
  (always a single byte).
\<close>

abbreviation backslash :: char where "backslash \<equiv> CHR 0x5C"
abbreviation newline :: char where "newline \<equiv> CHR 0x0A"
abbreviation tab :: char where "tab \<equiv> CHR 0x09"

definition lowerLetters :: string where
  "lowerLetters = ''abcdefghijklmnopqrstuvwxyz''"

definition upperLetters :: string where
  "upperLetters = ''ABCDEFGHIJKLMNOPQRSTUVWXYZ''"

definition toUpperChar :: "char \<Rightarrow> char" where
  "toUpperChar c = (case map_of (zip lowerLetters upperLetters) c of Some u \<Rightarrow> u | None \<Rightarrow> c)"

definition toLowerChar :: "char \<Rightarrow> char" where
  "toLowerChar c = (case map_of (zip upperLetters lowerLetters) c of Some l \<Rightarrow> l | None \<Rightarrow> c)"

text \<open>
  \<open>strings.ToUpper\<close> and \<open>strings.ToLower\<close> map the text rune by rune: the text is read
  as UTF-8, every rune goes through \<open>unicode.ToUpper\<close> or \<open>unicode.ToLower\<close>, and the
  result is written as UTF-8 again. \<open>decodeWide\<close> is \<open>utf8.DecodeRuneInString\<close> at a
  byte that is not ASCII: the rune and its width, or \<open>None\<close> where Go reads the error
  rune \<open>U+FFFD\<close> of width 1 (a byte that starts no rune, a sequence cut short, a
  continuation byte out of range, an overlong form, a surrogate); \<open>decode2\<close>, \<open>decode3\<close>
  and \<open>decode4\<close> read the sequences of two, three and four bytes. \<open>encodeRune\<close> is
  \<open>utf8.EncodeRune\<close>.
\<close>

definition decode2 :: "nat \<Rightarrow> nat list \<Rightarrow> (nat \<times> nat) option" where
  "decode2 s0 rest =
     (case rest of
        s1 # _ \<Rightarrow>
          if 0x80 \<le> s1 \<and> s1 \<le> 0xBF then Some ((s0 mod 32) * 64 + s1 mod 64, 2) else None
      | _ \<Rightarrow> None)"

definition decode3 :: "nat \<Rightarrow> nat list \<Rightarrow> (nat \<times> nat) option" where
  "decode3 s0 rest =
     (case rest of
        s1 # s2 # _ \<Rightarrow>
          if (if s0 = 0xE0 then 0xA0 else 0x80) \<le> s1 \<and>
             s1 \<le> (if s0 = 0xED then 0x9F else 0xBF) \<and> 0x80 \<le> s2 \<and> s2 \<le> 0xBF
          then Some ((s0 mod 16) * 4096 + (s1 mod 64) * 64 + s2 mod 64, 3)
          else None
      | _ \<Rightarrow> None)"

definition decode4 :: "nat \<Rightarrow> nat list \<Rightarrow> (nat \<times> nat) option" where
  "decode4 s0 rest =
     (case rest of
        s1 # s2 # s3 # _ \<Rightarrow>
          if (if s0 = 0xF0 then 0x90 else 0x80) \<le> s1 \<and>
             s1 \<le> (if s0 = 0xF4 then 0x8F else 0xBF) \<and> 0x80 \<le> s2 \<and> s2 \<le> 0xBF \<and>
             0x80 \<le> s3 \<and> s3 \<le> 0xBF
          then Some ((s0 mod 8) * 262144 + (s1 mod 64) * 4096 + (s2 mod 64) * 64 + s3 mod 64, 4)
          else None
      | _ \<Rightarrow> None)"

definition decodeWide :: "string \<Rightarrow> (nat \<times> nat) option" where
  "decodeWide s =
     (case map of_char (take 4 s) of
        [] \<Rightarrow> None
      | s0 # rest \<Rightarrow>
          if 0xC2 \<le> s0 \<and> s0 \<le> 0xDF then decode2 s0 rest
          else if 0xE0 \<le> s0 \<and> s0 \<le> 0xEF then decode3 s0 rest
          else if 0xF0 \<le> s0 \<and> s0 \<le> 0xF4 then decode4 s0 rest
          else None)"

definition encodeRune :: "nat \<Rightarrow> string" where
  "encodeRune r =
     (if r < 0x80 then [char_of r]
      else if r < 0x800 then [char_of (0xC0 + r div 64), char_of (0x80 + r mod 64)]
      else if (0xD800 \<le> r \<and> r \<le> 0xDFFF) \<or> 0x10FFFF < r then [CHR 0xEF, CHR 0xBF, CHR 0xBD]
      else if r < 0x10000 then
        [char_of (0xE0 + r div 4096), char_of (0x80 + (r div 64) mod 64), char_of (0x80 + r mod 64)]
      else [char_of (0xF0 + r div 262144), char_of (0x80 + (r div 4096) mod 64),
            char_of (0x80 + (r div 64) mod 64), char_of (0x80 + r mod 64)])"

text \<open>
  \<open>strings.Map\<close>: \<open>fa\<close> maps an ASCII byte, \<open>fw\<close> a rune read from a longer sequence
  (or the error rune); \<open>k\<close> counts the bytes of the last rune still to be skipped.
\<close>

fun mapRunesFrom :: "nat \<Rightarrow> (char \<Rightarrow> char) \<Rightarrow> (nat \<Rightarrow> nat) \<Rightarrow> string \<Rightarrow> string" where
  "mapRunesFrom k fa fw [] = []"
| "mapRunesFrom k fa fw (c # cs) =
     (if 0 < k then mapRunesFrom (k - 1) fa fw cs
      else if (of_char c :: nat) < 0x80 then fa c # mapRunesFrom 0 fa fw cs
      else (case decodeWide (c # cs) of
              Some (r, w) \<Rightarrow> encodeRune (fw r) @ mapRunesFrom (w - 1) fa fw cs
            | None \<Rightarrow> encodeRune (fw 0xFFFD) @ mapRunesFrom 0 fa fw cs))"

text \<open>
  \<open>unicode.ToLower\<close> and \<open>unicode.ToUpper\<close> above ASCII. Four runes have an ASCII
  letter as their image: \<open>U+0130\<close> and \<open>U+212A\<close> are lowered to \<open>i\<close> and \<open>k\<close>,
  \<open>U+0131\<close> and \<open>U+017F\<close> are raised to \<open>I\<close> and \<open>S\<close>. For every other rune the
  image is read from the table \<open>tbl\<close> of the \<open>unicode\<close> package, a parameter; the
  Unicode tables send no other rune into ASCII, so an image below \<open>0x80\<close> is not taken
  from it.
\<close>

definition toLowerWide :: "(nat \<Rightarrow> nat) \<Rightarrow> nat \<Rightarrow> nat" where
  "toLowerWide tbl r =
     (if r = 0x130 then 0x69 else if r = 0x212A then 0x6B
      else let r' = tbl r in if r' < 0x80 then r else r')"

definition toUpperWide :: "(nat \<Rightarrow> nat) \<Rightarrow> nat \<Rightarrow> nat" where
  "toUpperWide tbl r =
     (if r = 0x131 then 0x49 else if r = 0x17F then 0x53
      else let r' = tbl r in if r' < 0x80 then r else r')"

definition ToUpper :: "(nat \<Rightarrow> nat) \<Rightarrow> string \<Rightarrow> string" where
  "ToUpper tbl s = mapRunesFrom 0 toUpperChar (toUpperWide tbl) s"

definition ToLower :: "(nat \<Rightarrow> nat) \<Rightarrow> string \<Rightarrow> string" where
  "ToLower tbl s = mapRunesFrom 0 toLowerChar (toLowerWide tbl) s"

text \<open>\<open>strings.Split(s, sep)\<close> for a one-byte separator: never empty, \<open>Split "" sep = [""]\<close>.\<close>

fun Split :: "string \<Rightarrow> char \<Rightarrow> string list" where
  "Split [] sep = [[]]"
| "Split (c # cs) sep =
     (if c = sep then [] # Split cs sep
      else (case Split cs sep of w # ws \<Rightarrow> (c # w) # ws | [] \<Rightarrow> [[c]]))"

text \<open>\<open>strings.SplitN(s, sep, 2)\<close>: one element when \<open>sep\<close> does not occur, else two.\<close>

definition SplitN2 :: "string \<Rightarrow> char \<Rightarrow> string list" where
  "SplitN2 s sep =
     (if sep \<in> set s
      then [takeWhile (\<lambda>c. c \<noteq> sep) s, tl (dropWhile (\<lambda>c. c \<noteq> sep) s)]
      else [s])"

definition Trim :: "string \<Rightarrow> string \<Rightarrow> string" where
  "Trim s cutset =
     rev (dropWhile (\<lambda>c. c \<in> set cutset) (rev (dropWhile (\<lambda>c. c \<in> set cutset) s)))"

fun Join :: "string list \<Rightarrow> string \<Rightarrow> string" where
  "Join [] sep = []"
| "Join [x] sep = x"
| "Join (x # y # ys) sep = x @ sep @ Join (y # ys) sep"

definition HasPrefix :: "string \<Rightarrow> string \<Rightarrow> bool" where
  "HasPrefix s p = prefix p s"

definition HasSuffix :: "string \<Rightarrow> string \<Rightarrow> bool" where
  "HasSuffix s p = suffix p s"

definition TrimPrefix :: "string \<Rightarrow> string \<Rightarrow> string" where
  "TrimPrefix s p = (if prefix p s then drop (length p) s else s)"

text \<open>
  \<open>strings.Replace(s, old, new, -1)\<close>: the non-overlapping occurrences of \<open>old\<close>, left to
  right. \<open>replaceFrom k\<close> skips the \<open>k\<close> bytes of an occurrence it has just replaced.
\<close>

fun replaceFrom :: "nat \<Rightarrow> string \<Rightarrow> string \<Rightarrow> string \<Rightarrow> string" where
  "replaceFrom k old new [] = []"
| "replaceFrom k old new (c # cs) =
     (if 0 < k then replaceFrom (k - 1) old new cs
      else if prefix old (c # cs) then new @ replaceFrom (length old - 1) old new cs
      else c # replaceFrom 0 old new cs)"

definition Replace :: "string \<Rightarrow> string \<Rightarrow> string \<Rightarrow> string" where
  "Replace s old new =
     (if old = [] then concat (map (\<lambda>c. new @ [c]) s) @ new
      else replaceFrom 0 old new s)"

text \<open>
  \<open>path.Clean\<close>, on the list of path elements: empty elements and \<open>.\<close> are dropped, \<open>..\<close>
  removes the element before it, is dropped at the root and is kept at the front of a
  relative path. \<open>acc\<close> holds the elements written so far, last first.
\<close>

fun cleanElems :: "bool \<Rightarrow> string list \<Rightarrow> string list \<Rightarrow> string list" where
  "cleanElems rooted acc [] = rev acc"
| "cleanElems rooted acc (e # es) =
     (if e = [] \<or> e = ''.'' then cleanElems rooted acc es
      else if e = ''..'' then
        (case acc of
           a # as \<Rightarrow> if a \<noteq> ''..'' then cleanElems rooted as es
                     else cleanElems rooted (''..'' # acc) es
         | [] \<Rightarrow> if rooted then cleanElems rooted [] es
                 else cleanElems rooted [''..''] es)
      else cleanElems rooted (e # acc) es)"

definition Clean :: "string \<Rightarrow> string" where
  "Clean p =
     (if p = [] then ''.''
      else let rooted = (hd p = CHR ''/'');
               elems = cleanElems rooted [] (Split p (CHR ''/''))
           in if rooted then CHR ''/'' # Join elems ''/''
              else if elems = [] then ''.'' else Join elems ''/'')"

text \<open>\<open>path.Join\<close> (and \<open>filepath.Join\<close>, the same function on Linux).\<close>

definition pathJoin :: "string list \<Rightarrow> string" where
  "pathJoin elem =
     (case dropWhile (\<lambda>e. e = []) elem of [] \<Rightarrow> [] | es \<Rightarrow> Clean (Join es ''/''))"

section \<open>Recipe preprocessing\<close>

text \<open>
  \<open>stripComments\<close>: the loop over the lines of the raw file, \<open>out\<close> being the slice it
  appends to. A line is dropped when it is empty or its first byte is \<open>#\<close>.
\<close>

fun stripLoop :: "string list \<Rightarrow> string list \<Rightarrow> string list" where
  "stripLoop out [] = out"
| "stripLoop out (l # ls) =
     (if length l = 0 \<or> hd l = CHR ''#'' then stripLoop out ls
      else stripLoop (out @ [l]) ls)"

definition stripComments :: "string \<Rightarrow> string" where
  "stripComments raw = Join (stripLoop [] (Split raw newline)) [newline]"

text \<open>
  \<open>lineContinuation.ReplaceAllString(s, "")\<close> for the expression \<open>\\\s*\n\<close>: a backslash,
  the longest run of \<open>[\t\n\f\r ]\<close> after it that still ends in a newline, removed. The
  run is greedy, so the match ends at the last newline of the white space that follows
  the backslash.
\<close>

definition isSpace :: "char \<Rightarrow> bool" where
  "isSpace c = (c \<in> set [tab, newline, CHR 0x0C, CHR 0x0D, CHR '' ''])"

definition continuationLen :: "string \<Rightarrow> nat option" where
  "continuationLen cs =
     (let ws = takeWhile isSpace cs
      in if newline \<in> set ws
         then Some (length ws - length (takeWhile (\<lambda>c. c \<noteq> newline) (rev ws)))
         else None)"

fun joinFrom :: "nat \<Rightarrow> string \<Rightarrow> string" where
  "joinFrom k [] = []"
| "joinFrom k (c # cs) =
     (if 0 < k then joinFrom (k - 1) cs
      else if c = backslash then
        (case continuationLen cs of
           Some n \<Rightarrow> joinFrom n cs
         | None \<Rightarrow> c # joinFrom 0 cs)
      else c # joinFrom 0 cs)"

definition lineContinuation :: "string \<Rightarrow> string" where
  "lineContinuation s = joinFrom 0 s"

text \<open>
  The lines \<open>Build\<close> hands to \<open>BuildStep\<close>, in order: the preprocessed file split at
  newlines, tabs turned into spaces, trimmed, blank lines skipped.
\<close>

definition trimLine :: "string \<Rightarrow> string" where
  "trimLine line = Trim (Replace line [tab] '' '') [CHR '' '', tab, CHR 0x0D, newline]"

definition recipeLines :: "string \<Rightarrow> string list" where
  "recipeLines fileBytes =
     filter (\<lambda>line. length line \<noteq> 0)
       (map trimLine (Split (lineContinuation (stripComments fileBytes)) newline))"

section \<open>Env interpolation\<close>

text \<open>
  Panics (an index or a slice out of range) are a value of their own: a function that
  can panic returns \<open>Panic\<close> or \<open>Ret\<close> of its result.
\<close>

datatype 'a go = Panic | Ret 'a

text \<open>
  The expression of \<open>ReplaceEnvMatches\<close> is
  \<open>(\\\\+|[^\\]|\b|\A)\$({?)([[:alnum:]_]+)(}?)\<close>. After the \<open>$\<close> the match is forced:
  an optional \<open>{\<close>, the longest non-empty run of word bytes, an optional \<open>}\<close>.
  \<open>matchTail\<close> gives its length.
\<close>

definition isWordChar :: "char \<Rightarrow> bool" where
  "isWordChar c =
     (c \<in> set ''0123456789ABCDEFGHIJKLMNOPQRSTUVWXYZabcdefghijklmnopqrstuvwxyz_'')"

definition matchTail :: "string \<Rightarrow> nat option" where
  "matchTail s =
     (let b = (if s \<noteq> [] \<and> hd s = CHR ''{'' then 1 else 0);
          r = drop b s;
          name = takeWhile isWordChar r;
          r' = drop (length name) r
      in if name = [] then None
         else Some (b + length name + (if r' \<noteq> [] \<and> hd r' = CHR ''}'' then 1 else 0)))"

text \<open>
  The match that starts at the head of \<open>s\<close>, \<open>prev\<close> being the byte before it (\<open>None\<close> at
  the start of the text). The alternatives of the first group are tried in the order
  written: two or more backslashes; one byte that is not a backslash; a word boundary
  (the byte before \<open>$\<close> is a word byte); the start of the text.
\<close>

definition matchHere :: "char option \<Rightarrow> string \<Rightarrow> nat option" where
  "matchHere prev s =
     (let k = length (takeWhile (\<lambda>c. c = backslash) s) in
      if 2 \<le> k then
        (if k < length s \<and> s ! k = CHR ''$''
         then map_option (\<lambda>n. k + 1 + n) (matchTail (drop (k + 1) s)) else None)
      else if k = 1 then None
      else
        (case (if 2 \<le> length s \<and> s ! 1 = CHR ''$''
               then map_option (\<lambda>n. 2 + n) (matchTail (drop 2 s)) else None) of
           Some n \<Rightarrow> Some n
         | None \<Rightarrow>
             if s \<noteq> [] \<and> hd s = CHR ''$'' \<and>
                (case prev of None \<Rightarrow> True | Some p \<Rightarrow> isWordChar p)
             then map_option (\<lambda>n. 1 + n) (matchTail (tl s)) else None))"

text \<open>
  \<open>exp.FindAllString(value, -1)\<close>: the leftmost match, then the search goes on after it.
  \<open>k\<close> counts the bytes of the last match still to be skipped.
\<close>

fun findAllFrom :: "nat \<Rightarrow> char option \<Rightarrow> string \<Rightarrow> string list" where
  "findAllFrom k prev [] = []"
| "findAllFrom k prev (c # cs) =
     (if 0 < k then findAllFrom (k - 1) (Some c) cs
      else (case matchHere prev (c # cs) of
              None \<Rightarrow> findAllFrom 0 (Some c) cs
            | Some n \<Rightarrow> take n (c # cs) # findAllFrom (n - 1) (Some c) cs))"

definition FindAllString :: "string \<Rightarrow> string list" where
  "FindAllString v = findAllFrom 0 None v"

text \<open>
  The inner loop over \<open>config.Env\<close>: \<open>envParts[1]\<close> is read before the keys are compared,
  so an entry without \<open>=\<close> that is reached panics. The loop stops at the first entry with
  the key.
\<close>

fun replaceFirstKey :: "string list \<Rightarrow> string \<Rightarrow> string \<Rightarrow> string \<Rightarrow> string go" where
  "replaceFirstKey [] matchKey mtch v = Ret v"
| "replaceFirstKey (envVar # rest) matchKey mtch v =
     (case SplitN2 envVar (CHR ''='') of
        [envKey, envValue] \<Rightarrow>
          if envKey = matchKey then Ret (Replace v mtch envValue)
          else replaceFirstKey rest matchKey mtch v
      | _ \<Rightarrow> Panic)"

fun replaceMatches :: "string list \<Rightarrow> string list \<Rightarrow> string \<Rightarrow> string go" where
  "replaceMatches env [] v = Ret v"
| "replaceMatches env (m # ms) v =
     (if CHR ''$'' \<notin> set m then Panic
      else let mtch = dropWhile (\<lambda>c. c \<noteq> CHR ''$'') m;
               matchKey = Trim mtch ''${}''
           in (case replaceFirstKey env matchKey mtch v of
                 Panic \<Rightarrow> Panic
               | Ret v' \<Rightarrow> replaceMatches env ms v'))"

definition ReplaceEnvMatches :: "string list \<Rightarrow> string \<Rightarrow> string go" where
  "ReplaceEnvMatches env v = replaceMatches env (FindAllString v) v"

section \<open>The build state\<close>

text \<open>
  \<open>runconfig.Config\<close>, the fields the builder reads or writes. \<open>ExposedPorts\<close> and
  \<open>Volumes\<close> are Go maps to the empty struct, that is sets of keys.
\<close>

record Config =
  Cmd :: "string list"
  Entrypoint :: "string list"
  Env :: "string list"
  WorkingDir :: string
  User :: string
  ExposedPorts :: "string set"
  PortSpecs :: "string list"
  Volumes :: "string set"
  OnBuild :: "string list"
  Image' :: string

definition emptyConfig :: Config where
  "emptyConfig = \<lparr>Cmd = [], Entrypoint = [], Env = [], WorkingDir = [], User = [],
     ExposedPorts = {}, PortSpecs = [], Volumes = {}, OnBuild = [], Image' = []\<rparr>"

text \<open>
  \<open>b.config\<close> and \<open>image.Config\<close> are pointers to a \<open>Config\<close>: an address of the store
  \<open>heap\<close> of the build state. \<open>None\<close> is the nil pointer.
\<close>

type_synonym addr = nat

record Image =
  ID :: string
  Config :: "addr option"

datatype err =
    ErrDockerfileEmpty
  | InvalidDockerfileFormat
  | NoImageGenerated
  | InvalidFormat string
  | ChainedOnbuildInSource string
  | ForbiddenTriggerInSource string string
  | ChainingOnbuild
  | NotAllowedAsTrigger string
  | NoSourceImageRun
  | NoSourceImageCommit
  | InsertDeprecated
  | VolumeEmpty
  | NoSuchFile string
  | ForbiddenPath string string
  | NoContext string
  | SourceCantBeURL string
  | CannotDetermineFilename string
  | ErrorCreatingContainer
  | NonZeroCode "string list" int
  | External string

datatype stepName = StepN nat | OnbuildN nat

text \<open>What the builder prints, one constructor per format string.\<close>

datatype message =
    MsgStep stepName string
  | MsgArrow string
  | MsgUsingCache
  | MsgRunningIn string
  | MsgWarning string
  | MsgSkippingUnknown string
  | MsgExecutingTriggers nat
  | MsgRemoving string
  | MsgErrorRemoving string err
  | MsgSuccessfullyBuilt string

text \<open>
  \<open>buildFile\<close>. \<open>world\<close> is everything behind \<open>b.daemon\<close>, \<open>b.eng\<close> and the operating
  system (image store, containers, file system); \<open>contextSums\<close> is \<open>None\<close> for a nil
  \<open>b.context\<close> and else the checksums \<open>b.context.GetSums()\<close> returns; \<open>tmpContainers\<close>
  lists the keys of the Go map in the order they were added.
\<close>

record 'w buildFile =
  world :: 'w
  heap :: "addr \<Rightarrow> Config"
  nextAddr :: addr
  imageID :: string
  maintainer :: string
  config :: addr
  contextPath :: string
  contextSums :: "(string \<times> string) list option"
  verbose :: bool
  utilizeCache :: bool
  rm :: bool
  forceRm :: bool
  tmpContainers :: "string list"
  tmpImages :: "string set"
  outStream :: "message list"
  errStream :: "message list"
  cmdSet :: bool

text \<open>
  The collaborators whose code is not part of the builder: the daemon, the registry, the
  container runtime, the archive and checksum libraries, the operating system, the
  parsers of \<open>encoding/json\<close>, \<open>runconfig\<close>, \<open>nat\<close> and \<open>net/url\<close>, and the case
  tables of \<open>unicode\<close> (\<open>UpperTable\<close>, \<open>LowerTable\<close>). Each is a parameter;
  an operation that changes the world returns the new one beside its result.
  \<open>FetchRemote\<close> stands for the download of a remote source into a temporary directory
  of the context and its checksum (it returns the directory, the context-relative path
  of the file and the hash), \<open>AddContext\<close> for the copy into the mounted container,
  \<open>StartAndWait\<close> for attach, start and wait (it returns the exit code).
\<close>

record 'w ops =
  DefaultPathEnv :: string
  UpperTable :: "nat \<Rightarrow> nat"
  LowerTable :: "nat \<Rightarrow> nat"
  LookupImage :: "'w \<Rightarrow> string \<Rightarrow> err + Image"
  GraphIsNotExist :: "err \<Rightarrow> bool"
  Pull :: "'w \<Rightarrow> string \<Rightarrow> err option \<times> 'w"
  ImageGetCached :: "'w \<Rightarrow> string \<Rightarrow> Config \<Rightarrow> err + Image option"
  Create :: "'w \<Rightarrow> Config \<Rightarrow> (err + string \<times> string list) \<times> 'w"
  SetPathArgs :: "'w \<Rightarrow> string \<Rightarrow> string \<Rightarrow> string list \<Rightarrow> 'w"
  Get :: "'w \<Rightarrow> string \<Rightarrow> bool"
  Mount :: "'w \<Rightarrow> string \<Rightarrow> err option \<times> 'w"
  Unmount :: "'w \<Rightarrow> string \<Rightarrow> 'w"
  StartAndWait :: "'w \<Rightarrow> bool \<Rightarrow> string \<Rightarrow> (err + int) \<times> 'w"
  Commit :: "'w \<Rightarrow> string \<Rightarrow> string \<Rightarrow> Config \<Rightarrow> (err + string) \<times> 'w"
  Destroy :: "'w \<Rightarrow> string \<Rightarrow> err option \<times> 'w"
  JsonUnmarshal :: "string \<Rightarrow> string list option"
  ParseRun :: "string list \<Rightarrow> err + Config"
  Merge :: "Config \<Rightarrow> Config \<Rightarrow> Config"
  ParsePortSpecs :: "string list \<Rightarrow> err + string list"
  ShowPorts :: "string list \<Rightarrow> string"
  IsURL :: "string \<Rightarrow> bool"
  FetchRemote :: "'w \<Rightarrow> string \<Rightarrow> string \<Rightarrow> (err + string \<times> string \<times> string) \<times> 'w"
  RemoveAll :: "'w \<Rightarrow> string \<Rightarrow> 'w"
  UrlPath :: "string \<Rightarrow> err + string"
  EvalSymlinks :: "'w \<Rightarrow> string \<Rightarrow> err + string"
  OsIsNotExist :: "err \<Rightarrow> bool"
  Stat :: "'w \<Rightarrow> string \<Rightarrow> err + bool"
  Sha256Hex :: "string \<Rightarrow> string"
  AddContext :: "'w \<Rightarrow> string \<Rightarrow> string \<Rightarrow> string \<Rightarrow> bool \<Rightarrow> err option \<times> 'w"

text \<open>
  The outcome of a handler: it panicked, or it returned an error or nil, in both cases
  leaving a build state behind.
\<close>

datatype 'w result = Panicked | Failed err "'w buildFile" | Done "'w buildFile"

definition cfg :: "'w buildFile \<Rightarrow> Config" where
  "cfg b = heap b (config b)"

definition updConfig :: "(Config \<Rightarrow> Config) \<Rightarrow> 'w buildFile \<Rightarrow> 'w buildFile" where
  "updConfig f b = b\<lparr>heap := (heap b)(config b := f (heap b (config b)))\<rparr>"

text \<open>A deferred call: it runs on the state the function returns with.\<close>

definition deferred :: "('w buildFile \<Rightarrow> 'w buildFile) \<Rightarrow> 'w result \<Rightarrow> 'w result" where
  "deferred f r = (case r of Panicked \<Rightarrow> Panicked | Failed e b \<Rightarrow> Failed e (f b) | Done b \<Rightarrow> Done (f b))"

definition restoreCmd :: "string list \<Rightarrow> 'w buildFile \<Rightarrow> 'w buildFile" where
  "restoreCmd cmd b = updConfig (\<lambda>c. c\<lparr>Cmd := cmd\<rparr>) b"

definition unmount :: "'w ops \<Rightarrow> string \<Rightarrow> 'w buildFile \<Rightarrow> 'w buildFile" where
  "unmount ops c b = b\<lparr>world := Unmount ops (world b) c\<rparr>"

definition addTmp :: "string \<Rightarrow> string list \<Rightarrow> string list" where
  "addTmp c cs = (if c \<in> set cs then cs else cs @ [c])"

definition nop :: "string \<Rightarrow> string list" where
  "nop comment = [''/bin/sh'', ''-c'', ''#(nop) '' @ comment]"

text \<open>\<open>%v\<close> of a string slice.\<close>

definition showList :: "string list \<Rightarrow> string" where
  "showList xs = ''['' @ Join xs '' '' @ '']''"

section \<open>Cache probe and commit\<close>

definition probeCache :: "'w ops \<Rightarrow> 'w buildFile \<Rightarrow> (err + bool) \<times> 'w buildFile" where
  "probeCache ops b =
     (if utilizeCache b then
        (case ImageGetCached ops (world b) (imageID b) (cfg b) of
           Inl e \<Rightarrow> (Inl e, b)
         | Inr (Some cache) \<Rightarrow>
             (Inr True, b\<lparr>outStream := outStream b @ [MsgUsingCache], imageID := ID cache\<rparr>)
         | Inr None \<Rightarrow> (Inr False, b))
      else (Inr False, b))"

text \<open>The part of \<open>commit\<close> from \<open>b.daemon.Get(id)\<close> on.\<close>

definition commitContainer :: "'w ops \<Rightarrow> string \<Rightarrow> string list \<Rightarrow> 'w buildFile \<Rightarrow> 'w result" where
  "commitContainer ops cid autoCmd b =
     (if \<not> Get ops (world b) cid then Failed ErrorCreatingContainer b
      else let autoConfig = (cfg b)\<lparr>Cmd := autoCmd\<rparr>
           in (case Commit ops (world b) cid (maintainer b) autoConfig of
                 (Inl e, w) \<Rightarrow> Failed e (b\<lparr>world := w\<rparr>)
               | (Inr newID, w) \<Rightarrow>
                   Done (b\<lparr>world := w, tmpImages := insert newID (tmpImages b),
                            imageID := newID\<rparr>)))"

definition commit :: "'w ops \<Rightarrow> string \<Rightarrow> string list \<Rightarrow> string \<Rightarrow> 'w buildFile \<Rightarrow> 'w result" where
  "commit ops cid autoCmd comment b =
     (if imageID b = [] then Failed NoSourceImageCommit b
      else let b1 = updConfig (\<lambda>c. c\<lparr>Image' := imageID b\<rparr>) b in
        if cid = [] then
          let cmd = Cmd (cfg b1);
              b2 = updConfig (\<lambda>c. c\<lparr>Cmd := nop comment\<rparr>) b1
          in deferred (restoreCmd cmd)
               (case probeCache ops b2 of
                  (Inl e, b3) \<Rightarrow> Failed e b3
                | (Inr True, b3) \<Rightarrow> Done b3
                | (Inr False, b3) \<Rightarrow>
                    (case Create ops (world b3) (cfg b3) of
                       (Inl e, w) \<Rightarrow> Failed e (b3\<lparr>world := w\<rparr>)
                     | (Inr (newC, warnings), w) \<Rightarrow>
                         let b4 = b3\<lparr>world := w,
                                    tmpContainers := addTmp newC (tmpContainers b3),
                                    outStream := outStream b3 @ map MsgWarning warnings
                                                 @ [MsgRunningIn newC]\<rparr>
                         in (case Mount ops (world b4) newC of
                               (Some e, w') \<Rightarrow> Failed e (b4\<lparr>world := w'\<rparr>)
                             | (None, w') \<Rightarrow>
                                 deferred (unmount ops newC)
                                   (commitContainer ops newC autoCmd (b4\<lparr>world := w'\<rparr>)))))
        else commitContainer ops cid autoCmd b1)"

section \<open>Instruction handlers\<close>

definition buildCmdFromJson :: "'w ops \<Rightarrow> string \<Rightarrow> string list" where
  "buildCmdFromJson ops args =
     (case JsonUnmarshal ops args of Some cmd \<Rightarrow> cmd | None \<Rightarrow> [''/bin/sh'', ''-c'', args])"

definition CmdOnbuild :: "'w ops \<Rightarrow> string \<Rightarrow> 'w buildFile \<Rightarrow> 'w result" where
  "CmdOnbuild ops trigger b =
     (let splitTrigger = Split trigger (CHR '' '');
          triggerInstruction = ToUpper (UpperTable ops) (Trim (hd splitTrigger) '' '')
      in if triggerInstruction = ''ONBUILD'' then Failed ChainingOnbuild b
         else if triggerInstruction = ''MAINTAINER'' \<or> triggerInstruction = ''FROM''
         then Failed (NotAllowedAsTrigger triggerInstruction) b
         else let b1 = updConfig (\<lambda>c. c\<lparr>OnBuild := OnBuild c @ [trigger]\<rparr>) b
              in commit ops [] (Cmd (cfg b1)) (''ONBUILD '' @ trigger) b1)"

definition CmdMaintainer :: "'w ops \<Rightarrow> string \<Rightarrow> 'w buildFile \<Rightarrow> 'w result" where
  "CmdMaintainer ops name b =
     (let b1 = b\<lparr>maintainer := name\<rparr>
      in commit ops [] (Cmd (cfg b1)) (''MAINTAINER '' @ name) b1)"

text \<open>
  \<open>create\<close>: \<open>c.Path = b.config.Cmd[0]\<close> panics on an empty \<open>Cmd\<close>, after the container
  was created.
\<close>

definition create :: "'w ops \<Rightarrow> 'w buildFile \<Rightarrow> ((err + string) \<times> 'w buildFile) go" where
  "create ops b =
     (if imageID b = [] then Ret (Inl NoSourceImageRun, b)
      else let b1 = updConfig (\<lambda>c. c\<lparr>Image' := imageID b\<rparr>) b in
        (case Create ops (world b1) (cfg b1) of
           (Inl e, w) \<Rightarrow> Ret (Inl e, b1\<lparr>world := w\<rparr>)
         | (Inr (c, warnings), w) \<Rightarrow>
             (case Cmd (cfg b1) of
                [] \<Rightarrow> Panic
              | path # args \<Rightarrow>
                  Ret (Inr c, b1\<lparr>world := SetPathArgs ops w c path args,
                                  tmpContainers := addTmp c (tmpContainers b1),
                                  outStream := outStream b1 @ [MsgRunningIn c]\<rparr>))))"

definition run :: "'w ops \<Rightarrow> string \<Rightarrow> 'w buildFile \<Rightarrow> err option \<times> 'w buildFile" where
  "run ops c b =
     (case StartAndWait ops (world b) (verbose b) c of
        (Inl e, w) \<Rightarrow> (Some e, b\<lparr>world := w\<rparr>)
      | (Inr ret, w) \<Rightarrow>
          (if ret \<noteq> 0 then Some (NonZeroCode (Cmd (cfg b)) ret) else None, b\<lparr>world := w\<rparr>))"

definition CmdRun :: "'w ops \<Rightarrow> string \<Rightarrow> 'w buildFile \<Rightarrow> 'w result" where
  "CmdRun ops args b =
     (if imageID b = [] then Failed NoSourceImageRun b
      else (case ParseRun ops (imageID b # buildCmdFromJson ops args) of
        Inl e \<Rightarrow> Failed e b
      | Inr config' \<Rightarrow>
          let cmd = Cmd (cfg b);
              b1 = updConfig (\<lambda>c. Merge ops (c\<lparr>Cmd := Cmd config'\<rparr>) config') b
          in deferred (restoreCmd cmd)
               (case probeCache ops b1 of
                  (Inl e, b2) \<Rightarrow> Failed e b2
                | (Inr True, b2) \<Rightarrow> Done b2
                | (Inr False, b2) \<Rightarrow>
                    (case create ops b2 of
                       Panic \<Rightarrow> Panicked
                     | Ret (Inl e, b3) \<Rightarrow> Failed e b3
                     | Ret (Inr c, b3) \<Rightarrow>
                         let b4 = b3\<lparr>world := snd (Mount ops (world b3) c)\<rparr>
                         in deferred (unmount ops c)
                              (case run ops c b4 of
                                 (Some e, b5) \<Rightarrow> Failed e b5
                               | (None, b5) \<Rightarrow> commit ops c cmd ''run'' b5)))))"

text \<open>\<open>FindEnvKey\<close>: the index of the first entry with the key, or \<open>-1\<close>.\<close>

fun findEnvKeyFrom :: "int \<Rightarrow> string list \<Rightarrow> string \<Rightarrow> int" where
  "findEnvKeyFrom k [] key = - 1"
| "findEnvKeyFrom k (envVar # rest) key =
     (if key = hd (SplitN2 envVar (CHR ''='')) then k else findEnvKeyFrom (k + 1) rest key)"

definition FindEnvKey :: "'w buildFile \<Rightarrow> string \<Rightarrow> int" where
  "FindEnvKey b key = findEnvKeyFrom 0 (Env (cfg b)) key"

definition CmdEnv :: "'w ops \<Rightarrow> string \<Rightarrow> 'w buildFile \<Rightarrow> 'w result" where
  "CmdEnv ops args b =
     (case SplitN2 args (CHR '' '') of
        [t0, t1] \<Rightarrow>
          let key = Trim t0 [CHR '' '', tab];
              val = Trim t1 [CHR '' '', tab];
              envKey = FindEnvKey b key
          in (case ReplaceEnvMatches (Env (cfg b)) val of
                Panic \<Rightarrow> Panicked
              | Ret replacedValue \<Rightarrow>
                  let replacedVar = key @ ''='' @ replacedValue;
                      b1 = (if 0 \<le> envKey
                            then updConfig (\<lambda>c. c\<lparr>Env := (Env c)[nat envKey := replacedVar]\<rparr>) b
                            else updConfig (\<lambda>c. c\<lparr>Env := Env c @ [replacedVar]\<rparr>) b)
                  in commit ops [] (Cmd (cfg b1)) (''ENV '' @ replacedVar) b1)
      | _ \<Rightarrow> Failed (InvalidFormat ''ENV'') b)"

definition CmdCmd :: "'w ops \<Rightarrow> string \<Rightarrow> 'w buildFile \<Rightarrow> 'w result" where
  "CmdCmd ops args b =
     (let cmd = buildCmdFromJson ops args;
          b1 = updConfig (\<lambda>c. c\<lparr>Cmd := cmd\<rparr>) b
      in (case commit ops [] (Cmd (cfg b1)) (''CMD '' @ showList cmd) b1 of
            Done b2 \<Rightarrow> Done (b2\<lparr>cmdSet := True\<rparr>)
          | r \<Rightarrow> r))"

definition CmdEntrypoint :: "'w ops \<Rightarrow> string \<Rightarrow> 'w buildFile \<Rightarrow> 'w result" where
  "CmdEntrypoint ops args b =
     (let entrypoint = buildCmdFromJson ops args;
          b1 = updConfig (\<lambda>c. c\<lparr>Entrypoint := entrypoint\<rparr>) b;
          b2 = (if \<not> cmdSet b1 then updConfig (\<lambda>c. c\<lparr>Cmd := []\<rparr>) b1 else b1)
      in commit ops [] (Cmd (cfg b2)) (''ENTRYPOINT '' @ showList entrypoint) b2)"

definition CmdExpose :: "'w ops \<Rightarrow> string \<Rightarrow> 'w buildFile \<Rightarrow> 'w result" where
  "CmdExpose ops args b =
     (let portsTab = Split args (CHR '' '')
      in (case ParsePortSpecs ops (portsTab @ PortSpecs (cfg b)) of
            Inl e \<Rightarrow> Failed e b
          | Inr ports \<Rightarrow>
              let b1 = updConfig (\<lambda>c. c\<lparr>ExposedPorts := ExposedPorts c \<union> set ports,
                                          PortSpecs := []\<rparr>) b
              in commit ops [] (Cmd (cfg b1)) (''EXPOSE '' @ ShowPorts ops ports) b1))"

definition CmdUser :: "'w ops \<Rightarrow> string \<Rightarrow> 'w buildFile \<Rightarrow> 'w result" where
  "CmdUser ops args b =
     (let b1 = updConfig (\<lambda>c. c\<lparr>User := args\<rparr>) b
      in commit ops [] (Cmd (cfg b1)) (''USER '' @ args) b1)"

definition CmdInsert :: "'w ops \<Rightarrow> string \<Rightarrow> 'w buildFile \<Rightarrow> 'w result" where
  "CmdInsert ops args b = Failed InsertDeprecated b"

text \<open>\<open>CmdWorkdir\<close>: \<open>workdir[0]\<close> is read first, an index out of range on the empty string.\<close>

definition CmdWorkdir :: "'w ops \<Rightarrow> string \<Rightarrow> 'w buildFile \<Rightarrow> 'w result" where
  "CmdWorkdir ops workdir b =
     (case workdir of
        [] \<Rightarrow> Panicked
      | w0 # _ \<Rightarrow>
          let b1 = (if w0 = CHR ''/'' then updConfig (\<lambda>c. c\<lparr>WorkingDir := workdir\<rparr>) b
                    else let b' = (if WorkingDir (cfg b) = []
                                   then updConfig (\<lambda>c. c\<lparr>WorkingDir := ''/''\<rparr>) b else b)
                         in updConfig (\<lambda>c. c\<lparr>WorkingDir := pathJoin [WorkingDir c, workdir]\<rparr>) b')
          in commit ops [] (Cmd (cfg b1)) (''WORKDIR '' @ workdir) b1)"

definition CmdVolume :: "'w ops \<Rightarrow> string \<Rightarrow> 'w buildFile \<Rightarrow> 'w result" where
  "CmdVolume ops args b =
     (if args = [] then Failed VolumeEmpty b
      else let volume = (case JsonUnmarshal ops args of Some v \<Rightarrow> v | None \<Rightarrow> [args]);
               b1 = updConfig (\<lambda>c. c\<lparr>Volumes := Volumes c \<union> set volume\<rparr>) b
           in commit ops [] (Cmd (cfg b1)) (''VOLUME '' @ args) b1)"

section \<open>COPY and ADD\<close>

definition checkPathForAddition :: "'w ops \<Rightarrow> string \<Rightarrow> 'w buildFile \<Rightarrow> err option" where
  "checkPathForAddition ops orig b =
     (let origPath = pathJoin [contextPath b, orig]
      in (case EvalSymlinks ops (world b) origPath of
            Inl e \<Rightarrow> if OsIsNotExist ops e then Some (NoSuchFile orig) else Some e
          | Inr p \<Rightarrow>
              if \<not> HasPrefix p (contextPath b) then Some (ForbiddenPath orig p)
              else (case Stat ops (world b) p of
                      Inl e \<Rightarrow> if OsIsNotExist ops e then Some (NoSuchFile orig) else Some e
                    | Inr _ \<Rightarrow> None)))"

text \<open>
  The content hash of the cache probe (the body of \<open>if b.utilizeCache\<close> up to the
  probe). It returns the hash and \<open>origPath\<close>, which the file case rewrites; the file
  case reads \<open>origPath[0]\<close>.
\<close>

definition contentHash ::
  "'w ops \<Rightarrow> (string \<times> string) list \<Rightarrow> string \<Rightarrow> string \<Rightarrow> 'w buildFile
     \<Rightarrow> (err + string \<times> string) go" where
  "contentHash ops sums remoteHash origPath b =
     (if remoteHash \<noteq> [] then Ret (Inr (remoteHash, origPath))
      else (case Stat ops (world b) (pathJoin [contextPath b, origPath]) of
        Inl e \<Rightarrow> Ret (Inl e)
      | Inr True \<Rightarrow>
          let subfiles = map snd (filter (\<lambda>(file, sum).
                HasPrefix (pathJoin [contextPath b, file]) (pathJoin [contextPath b, origPath])) sums)
          in Ret (Inr (''dir:'' @ Sha256Hex ops (Join (sort subfiles) '',''), origPath))
      | Inr False \<Rightarrow>
          (case origPath of
             [] \<Rightarrow> Panic
           | c0 # rest \<Rightarrow>
               let p1 = (if c0 = CHR ''/'' \<and> 1 < length origPath then rest else origPath);
                   p2 = TrimPrefix p1 ''./''
               in Ret (Inr ((case map_of sums p2 of Some h \<Rightarrow> ''file:'' @ h | None \<Rightarrow> []), p2)))))"

text \<open>The tail of \<open>runContextCommand\<close>, from \<open>b.daemon.Create\<close> on.\<close>

definition materialize ::
  "'w ops \<Rightarrow> string \<Rightarrow> string list \<Rightarrow> string \<Rightarrow> string \<Rightarrow> string \<Rightarrow> string \<Rightarrow> bool \<Rightarrow> bool
     \<Rightarrow> 'w buildFile \<Rightarrow> 'w result" where
  "materialize ops cmdName cmd orig dest origPath destPath isRemote allowDecompression b =
     (case Create ops (world b) (cfg b) of
        (Inl e, w) \<Rightarrow> Failed e (b\<lparr>world := w\<rparr>)
      | (Inr (c, warnings), w) \<Rightarrow>
          let b1 = b\<lparr>world := w, tmpContainers := addTmp c (tmpContainers b)\<rparr>
          in (case Mount ops (world b1) c of
                (Some e, w') \<Rightarrow> Failed e (b1\<lparr>world := w'\<rparr>)
              | (None, w') \<Rightarrow>
                  deferred (unmount ops c)
                    (let decompress = (if \<not> allowDecompression \<or> isRemote then False else True)
                     in (case AddContext ops w' c origPath destPath decompress of
                           (Some e, w'') \<Rightarrow> Failed e (b1\<lparr>world := w''\<rparr>)
                         | (None, w'') \<Rightarrow>
                             commit ops c cmd (cmdName @ '' '' @ orig @ '' in '' @ dest)
                               (b1\<lparr>world := w''\<rparr>)))))"

text \<open>
  \<open>runContextCommand\<close> from the call of \<open>checkPathForAddition\<close> on: the check, the cache
  probe under the hashed \<open>Cmd\<close>, and the copy.
\<close>

definition addFromContext ::
  "'w ops \<Rightarrow> string \<Rightarrow> string list \<Rightarrow> (string \<times> string) list \<Rightarrow> string \<Rightarrow> string \<Rightarrow> string
     \<Rightarrow> string \<Rightarrow> string \<Rightarrow> bool \<Rightarrow> bool \<Rightarrow> 'w buildFile \<Rightarrow> 'w result" where
  "addFromContext ops cmdName cmd sums orig dest origPath destPath remoteHash isRemote
       allowDecompression b =
     (case checkPathForAddition ops origPath b of
        Some e \<Rightarrow> Failed e b
      | None \<Rightarrow>
          if utilizeCache b then
            (case contentHash ops sums remoteHash origPath b of
               Panic \<Rightarrow> Panicked
             | Ret (Inl e) \<Rightarrow> Failed e b
             | Ret (Inr (hash, origPath')) \<Rightarrow>
                 let b1 = updConfig (\<lambda>c. c\<lparr>Cmd := nop (cmdName @ '' '' @ hash @ '' in '' @ dest)\<rparr>) b
                 in (case probeCache ops b1 of
                       (Inl e, b2) \<Rightarrow> Failed e b2
                     | (Inr hit, b2) \<Rightarrow>
                         if hit \<and> hash \<noteq> [] then Done b2
                         else materialize ops cmdName cmd orig dest origPath' destPath isRemote
                                allowDecompression b2))
          else materialize ops cmdName cmd orig dest origPath destPath isRemote
                 allowDecompression b)"

definition runContextCommand ::
  "'w ops \<Rightarrow> string \<Rightarrow> bool \<Rightarrow> bool \<Rightarrow> string \<Rightarrow> 'w buildFile \<Rightarrow> 'w result" where
  "runContextCommand ops args allowRemote allowDecompression cmdName b =
     (case contextSums b of
        None \<Rightarrow> Failed (NoContext cmdName) b
      | Some sums \<Rightarrow>
     (case SplitN2 args (CHR '' '') of
        [t0, t1] \<Rightarrow>
     (case ReplaceEnvMatches (Env (cfg b)) (Trim t0 [CHR '' '', tab]) of
        Panic \<Rightarrow> Panicked
      | Ret orig \<Rightarrow>
     (case ReplaceEnvMatches (Env (cfg b)) (Trim t1 [CHR '' '', tab]) of
        Panic \<Rightarrow> Panicked
      | Ret dest \<Rightarrow>
          let cmd = Cmd (cfg b);
              b1 = updConfig (\<lambda>c. c\<lparr>Cmd := nop (cmdName @ '' '' @ orig @ '' in '' @ dest)\<rparr>) b
          in deferred (restoreCmd cmd)
               (let b2 = updConfig (\<lambda>c. c\<lparr>Image' := imageID b1\<rparr>) b1;
                    isRemote = IsURL ops orig
                in if isRemote \<and> \<not> allowRemote then Failed (SourceCantBeURL cmdName) b2
                   else if IsURL ops orig then
                     (case FetchRemote ops (world b2) (contextPath b2) orig of
                        (Inl e, w) \<Rightarrow> Failed e (b2\<lparr>world := w\<rparr>)
                      | (Inr (tmpDirName, origPath, remoteHash), w) \<Rightarrow>
                          deferred (\<lambda>b'. b'\<lparr>world := RemoveAll ops (world b') tmpDirName\<rparr>)
                            (let b3 = b2\<lparr>world := w\<rparr>
                             in if HasSuffix dest ''/'' then
                                  (case UrlPath ops orig of
                                     Inl e \<Rightarrow> Failed e b3
                                   | Inr path \<Rightarrow>
                                       let path' = (if HasSuffix path ''/'' then butlast path else path);
                                           parts = Split path' (CHR ''/'');
                                           filename = last parts
                                       in if filename = [] then Failed (CannotDetermineFilename orig) b3
                                          else addFromContext ops cmdName cmd sums orig dest origPath
                                                 (dest @ filename) remoteHash isRemote
                                                 allowDecompression b3)
                                else addFromContext ops cmdName cmd sums orig dest origPath dest
                                       remoteHash isRemote allowDecompression b3))
                   else addFromContext ops cmdName cmd sums orig dest orig dest [] isRemote
                          allowDecompression b2)))
      | _ \<Rightarrow> Failed (InvalidFormat cmdName) b))"

definition CmdCopy :: "'w ops \<Rightarrow> string \<Rightarrow> 'w buildFile \<Rightarrow> 'w result" where
  "CmdCopy ops args b = runContextCommand ops args False False ''COPY'' b"

definition CmdAdd :: "'w ops \<Rightarrow> string \<Rightarrow> 'w buildFile \<Rightarrow> 'w result" where
  "CmdAdd ops args b = runContextCommand ops args True True ''ADD'' b"

section \<open>Dispatch, FROM and the recipe driver\<close>

text \<open>
  \<open>reflect.TypeOf(b).MethodByName\<close>: the methods of \<open>*buildFile\<close> whose name starts with
  \<open>Cmd\<close>. \<open>BuildStep\<close> and \<open>CmdFrom\<close> call each other, so the dispatcher takes the
  handler of \<open>CmdFrom\<close> as its first argument and \<open>CmdFrom\<close> takes the function that runs
  a trigger; the two are tied together below.
\<close>

definition methodByName ::
  "(string \<Rightarrow> 'w buildFile \<Rightarrow> 'w result) \<Rightarrow> 'w ops \<Rightarrow> string
     \<Rightarrow> (string \<Rightarrow> 'w buildFile \<Rightarrow> 'w result) option" where
  "methodByName cmdFrom ops name =
     (if name = ''CmdFrom'' then Some cmdFrom
      else if name = ''CmdOnbuild'' then Some (CmdOnbuild ops)
      else if name = ''CmdMaintainer'' then Some (CmdMaintainer ops)
      else if name = ''CmdRun'' then Some (CmdRun ops)
      else if name = ''CmdEnv'' then Some (CmdEnv ops)
      else if name = ''CmdCmd'' then Some (CmdCmd ops)
      else if name = ''CmdEntrypoint'' then Some (CmdEntrypoint ops)
      else if name = ''CmdExpose'' then Some (CmdExpose ops)
      else if name = ''CmdUser'' then Some (CmdUser ops)
      else if name = ''CmdInsert'' then Some (CmdInsert ops)
      else if name = ''CmdCopy'' then Some (CmdCopy ops)
      else if name = ''CmdWorkdir'' then Some (CmdWorkdir ops)
      else if name = ''CmdVolume'' then Some (CmdVolume ops)
      else if name = ''CmdAdd'' then Some (CmdAdd ops)
      else None)"

text \<open>\<open>BuildStep\<close>; \<open>instruction[:1]\<close> is a slice out of range on the empty string.\<close>

definition BuildStepWith ::
  "(string \<Rightarrow> 'w buildFile \<Rightarrow> 'w result) \<Rightarrow> 'w ops \<Rightarrow> stepName \<Rightarrow> string
     \<Rightarrow> 'w buildFile \<Rightarrow> 'w result" where
  "BuildStepWith cmdFrom ops name expression b =
     (let b0 = b\<lparr>outStream := outStream b @ [MsgStep name expression]\<rparr>
      in (case SplitN2 expression (CHR '' '') of
            [t0, t1] \<Rightarrow>
              let instruction = ToLower (LowerTable ops) (Trim t0 '' '');
                  arguments = Trim t1 '' ''
              in if instruction = [] then Panicked
                 else (case methodByName cmdFrom ops
                              (''Cmd'' @ ToUpper (UpperTable ops) (take 1 instruction)
                                 @ ToLower (LowerTable ops) (drop 1 instruction)) of
                         None \<Rightarrow>
                           Done (b0\<lparr>errStream := errStream b0
                                     @ [MsgSkippingUnknown
                                          (ToUpper (UpperTable ops) instruction)]\<rparr>)
                       | Some method \<Rightarrow>
                           (case method arguments b0 of
                              Done b1 \<Rightarrow> Done (b1\<lparr>outStream := outStream b1 @ [MsgArrow (imageID b1)]\<rparr>)
                            | r \<Rightarrow> r))
          | _ \<Rightarrow> Failed InvalidDockerfileFormat b0))"

text \<open>The loop of \<open>CmdFrom\<close> over the triggers of the base image; \<open>n\<close> is the index.\<close>

fun runTriggers ::
  "'w ops \<Rightarrow> (stepName \<Rightarrow> string \<Rightarrow> 'w buildFile \<Rightarrow> 'w result) \<Rightarrow> nat \<Rightarrow> string list
     \<Rightarrow> 'w buildFile \<Rightarrow> 'w result" where
  "runTriggers ops buildStep n [] b = Done b"
| "runTriggers ops buildStep n (step # rest) b =
     (let splitStep = Split step (CHR '' '');
          stepInstruction = ToUpper (UpperTable ops) (Trim (hd splitStep) '' '')
      in if stepInstruction = ''ONBUILD'' then Failed (ChainedOnbuildInSource step) b
         else if stepInstruction = ''MAINTAINER'' \<or> stepInstruction = ''FROM''
         then Failed (ForbiddenTriggerInSource stepInstruction step) b
         else (case buildStep (OnbuildN n) step b of
                 Done b' \<Rightarrow> runTriggers ops buildStep (Suc n) rest b'
               | r \<Rightarrow> r))"

text \<open>
  \<open>CmdFrom\<close> between the lookup and the loop: \<open>b.image\<close>, \<open>b.config\<close> (a new empty
  \<open>Config\<close>, then the pointer of the image when it is not nil), the default \<open>PATH\<close>, the
  message, and the triggers taken out of the config \<open>b.config\<close> points to. It returns the
  triggers and the state.
\<close>

definition fromImage :: "'w ops \<Rightarrow> Image \<Rightarrow> 'w buildFile \<Rightarrow> string list \<times> 'w buildFile" where
  "fromImage ops img b =
     (let b1 = b\<lparr>imageID := ID img\<rparr>;
          b2 = b1\<lparr>heap := (heap b1)(nextAddr b1 := emptyConfig), config := nextAddr b1,
                  nextAddr := Suc (nextAddr b1)\<rparr>;
          b3 = (case Config img of Some a \<Rightarrow> b2\<lparr>config := a\<rparr> | None \<Rightarrow> b2);
          b4 = (if Env (cfg b3) = []
                then updConfig (\<lambda>c. c\<lparr>Env := Env c @ [''PATH='' @ DefaultPathEnv ops]\<rparr>) b3
                else b3);
          nTriggers = length (OnBuild (cfg b4));
          b5 = (if nTriggers \<noteq> 0
                then b4\<lparr>errStream := errStream b4 @ [MsgExecutingTriggers nTriggers]\<rparr> else b4);
          onBuildTriggers = OnBuild (cfg b5)
      in (onBuildTriggers, updConfig (\<lambda>c. c\<lparr>OnBuild := []\<rparr>) b5))"

definition CmdFromWith ::
  "(stepName \<Rightarrow> string \<Rightarrow> 'w buildFile \<Rightarrow> 'w result) \<Rightarrow> 'w ops \<Rightarrow> string
     \<Rightarrow> 'w buildFile \<Rightarrow> 'w result" where
  "CmdFromWith buildStep ops name b =
     (case LookupImage ops (world b) name of
        Inr img \<Rightarrow> (case fromImage ops img b of (ts, b') \<Rightarrow> runTriggers ops buildStep 0 ts b')
      | Inl e \<Rightarrow>
          if GraphIsNotExist ops e then
            (case Pull ops (world b) name of
               (Some e', w) \<Rightarrow> Failed e' (b\<lparr>world := w\<rparr>)
             | (None, w) \<Rightarrow>
                 (case LookupImage ops w name of
                    Inl e'' \<Rightarrow> Failed e'' (b\<lparr>world := w\<rparr>)
                  | Inr img \<Rightarrow>
                      (case fromImage ops img (b\<lparr>world := w\<rparr>) of
                         (ts, b') \<Rightarrow> runTriggers ops buildStep 0 ts b')))
          else Failed e b)"

text \<open>
  A trigger reaches \<open>BuildStep\<close> only after the loop has refused \<open>FROM\<close>, so the
  \<open>BuildStep\<close> that runs a trigger never dispatches to \<open>CmdFrom\<close> again: \<open>triggerStep\<close>
  is \<open>BuildStep\<close> with a \<open>CmdFrom\<close> entry that is never called (lemma
  \<open>CmdFrom_unfold\<close> below gives the equation of the source, \<open>CmdFrom\<close> calling
  \<open>BuildStep\<close>).
\<close>

definition triggerStep :: "'w ops \<Rightarrow> stepName \<Rightarrow> string \<Rightarrow> 'w buildFile \<Rightarrow> 'w result" where
  "triggerStep ops = BuildStepWith (\<lambda>name b. Panicked) ops"

definition CmdFrom :: "'w ops \<Rightarrow> string \<Rightarrow> 'w buildFile \<Rightarrow> 'w result" where
  "CmdFrom ops = CmdFromWith (triggerStep ops) ops"

definition BuildStep :: "'w ops \<Rightarrow> stepName \<Rightarrow> string \<Rightarrow> 'w buildFile \<Rightarrow> 'w result" where
  "BuildStep ops = BuildStepWith (CmdFrom ops) ops"

fun clearLoop :: "'w ops \<Rightarrow> string list \<Rightarrow> 'w buildFile \<Rightarrow> 'w buildFile" where
  "clearLoop ops [] b = b"
| "clearLoop ops (c # cs) b =
     (case Destroy ops (world b) c of
        (Some e, w) \<Rightarrow>
          clearLoop ops cs (b\<lparr>world := w, outStream := outStream b @ [MsgErrorRemoving c e]\<rparr>)
      | (None, w) \<Rightarrow>
          clearLoop ops cs (b\<lparr>world := w, tmpContainers := removeAll c (tmpContainers b),
                               outStream := outStream b @ [MsgRemoving c]\<rparr>))"

definition clearTmp :: "'w ops \<Rightarrow> 'w buildFile \<Rightarrow> 'w buildFile" where
  "clearTmp ops b = clearLoop ops (tmpContainers b) b"

text \<open>
  \<open>Build\<close> from the read of the Dockerfile on (the extraction of the archive into
  \<open>contextPath\<close> comes before and is part of the initial state).
\<close>

fun buildLoop :: "'w ops \<Rightarrow> nat \<Rightarrow> string list \<Rightarrow> 'w buildFile \<Rightarrow> 'w result" where
  "buildLoop ops stepN [] b = Done b"
| "buildLoop ops stepN (l # ls) b =
     (let line = trimLine l
      in if length line = 0 then buildLoop ops stepN ls b
         else (case BuildStep ops (StepN stepN) line b of
                 Panicked \<Rightarrow> Panicked
               | Failed e b' \<Rightarrow> Failed e (if forceRm b' then clearTmp ops b' else b')
               | Done b' \<Rightarrow>
                   buildLoop ops (stepN + 1) ls (if rm b' then clearTmp ops b' else b')))"

definition Build :: "'w ops \<Rightarrow> string \<Rightarrow> 'w buildFile \<Rightarrow> 'w result" where
  "Build ops fileBytes b =
     (if length fileBytes = 0 then Failed ErrDockerfileEmpty b
      else (case buildLoop ops 0 (Split (lineContinuation (stripComments fileBytes)) newline) b of
              Done b' \<Rightarrow>
                if imageID b' \<noteq> []
                then Done (b'\<lparr>outStream := outStream b' @ [MsgSuccessfullyBuilt (imageID b')]\<rparr>)
                else Failed NoImageGenerated b'
            | r \<Rightarrow> r))"

section \<open>A small world for concrete runs\<close>

text \<open>
  A daemon that keeps the configs committed so far and counts the containers created; a
  file system without symbolic links in which every path exists and is a file, except
  the paths listed as directories; case tables that leave every rune they are asked
  about as it is. The cache lookup, the image lookup and the failure of \<open>Create\<close> are
  arguments.
\<close>

record world0 =
  committed :: "Config list"
  created :: "Config list"

definition w0 :: world0 where
  "w0 = \<lparr>committed = [], created = []\<rparr>"

definition ops0 ::
  "(string \<Rightarrow> err + Image) \<Rightarrow> (string \<Rightarrow> Config \<Rightarrow> Image option) \<Rightarrow> bool \<Rightarrow> string list
     \<Rightarrow> world0 ops" where
  "ops0 lookup cached createFails dirs =
     \<lparr>DefaultPathEnv = ''/usr/local/sbin:/usr/local/bin:/usr/sbin:/usr/bin:/sbin:/bin'',
      UpperTable = (\<lambda>r. r),
      LowerTable = (\<lambda>r. r),
      LookupImage = (\<lambda>w name. lookup name),
      GraphIsNotExist = (\<lambda>e. False),
      Pull = (\<lambda>w name. (None, w)),
      ImageGetCached = (\<lambda>w i c. Inr (cached i c)),
      Create = (\<lambda>w c. if createFails then (Inl (External ''create''), w)
                        else (Inr (CHR ''c'' # replicate (length (created w)) (CHR ''+''), []),
                              w\<lparr>created := created w @ [c]\<rparr>)),
      SetPathArgs = (\<lambda>w c p a. w),
      Get = (\<lambda>w c. True),
      Mount = (\<lambda>w c. (None, w)),
      Unmount = (\<lambda>w c. w),
      StartAndWait = (\<lambda>w v c. (Inr 0, w)),
      Commit = (\<lambda>w c author conf.
                  (Inr (CHR ''i'' # replicate (length (committed w)) (CHR ''+'')),
                   w\<lparr>committed := committed w @ [conf]\<rparr>)),
      Destroy = (\<lambda>w c. (None, w)),
      JsonUnmarshal = (\<lambda>s. None),
      ParseRun = (\<lambda>args. Inr (emptyConfig\<lparr>Cmd := tl args\<rparr>)),
      Merge = (\<lambda>user img. user),
      ParsePortSpecs = (\<lambda>specs. Inr specs),
      ShowPorts = (\<lambda>ports. showList ports),
      IsURL = (\<lambda>s. False),
      FetchRemote = (\<lambda>w ctx orig. (Inl (External ''download''), w)),
      RemoveAll = (\<lambda>w p. w),
      UrlPath = (\<lambda>s. Inr s),
      EvalSymlinks = (\<lambda>w p. Inr p),
      OsIsNotExist = (\<lambda>e. False),
      Stat = (\<lambda>w p. Inr (p \<in> set dirs)),
      Sha256Hex = (\<lambda>s. s),
      AddContext = (\<lambda>w c orig dest decompress. (None, w))\<rparr>"

definition b0 :: "world0 buildFile" where
  "b0 = \<lparr>world = w0, heap = (\<lambda>a. emptyConfig), nextAddr = 1, imageID = ''base'',
         maintainer = [], config = 0, contextPath = ''/ctx'', contextSums = Some [],
         verbose = False, utilizeCache = True, rm = False, forceRm = False,
         tmpContainers = [], tmpImages = {}, outStream = [], errStream = [],
         cmdSet = False\<rparr>"

section \<open>Vocabulary of the properties\<close>

text \<open>
  The instruction names that \<open>methodByName\<close> resolves, in the lower case \<open>BuildStep\<close>
  folds the keyword to; the strings of ASCII bytes; the test \<open>stripComments\<close> applies
  to a line; the key of an \<open>Env\<close> entry as \<open>FindEnvKey\<close> reads it.
\<close>

definition instructions :: "string list" where
  "instructions = [''from'', ''onbuild'', ''maintainer'', ''run'', ''env'', ''cmd'',
     ''entrypoint'', ''expose'', ''user'', ''insert'', ''copy'', ''workdir'', ''volume'', ''add'']"

definition isASCII :: "string \<Rightarrow> bool" where
  "isASCII s = list_all (\<lambda>c. (of_char c :: nat) < 128) s"

definition keepLine :: "string \<Rightarrow> bool" where
  "keepLine l = (l \<noteq> [] \<and> hd l \<noteq> CHR ''#'')"

definition envKeyOf :: "string \<Rightarrow> string" where
  "envKeyOf envVar = hd (SplitN2 envVar (CHR ''=''))"

text \<open>The build state a handler leaves behind; none after a panic.\<close>

definition stateOf :: "'w result \<Rightarrow> 'w buildFile option" where
  "stateOf r = (case r of Panicked \<Rightarrow> None | Failed e b \<Rightarrow> Some b | Done b \<Rightarrow> Some b)"

text \<open>
  What \<open>commit\<close> leaves of the configuration: the pointer is the same, the config it
  points to differs at most in \<open>Image\<close>, every other config of the store is untouched.
\<close>

definition keepsConfig :: "'w buildFile \<Rightarrow> 'w buildFile \<Rightarrow> bool" where
  "keepsConfig b b' =
     (config b' = config b \<and> cmdSet b' = cmdSet b \<and> nextAddr b' = nextAddr b \<and>
      heap b' = (heap b)(config b := (cfg b')) \<and>
      (cfg b' = cfg b \<or> cfg b' = (cfg b)\<lparr>Image' := imageID b\<rparr>))"

text \<open>An instance of the small world: no image is found, the cache is empty.\<close>

definition opsPlain :: "world0 ops" where
  "opsPlain = ops0 (\<lambda>n. Inl (External ''no such image'')) (\<lambda>i c. None) False []"

section \<open>Strings: auxiliary facts\<close>

lemmas case_defs = ToLower_def ToUpper_def toLowerChar_def toUpperChar_def
  upperLetters_def lowerLetters_def

lemma Split_nonempty: "Split s sep \<noteq> []"
  by (induction s) (auto split: list.splits)

lemma hd_Split: "hd (Split s sep) = takeWhile (\<lambda>c. c \<noteq> sep) s"
  by (induction s) (auto split: list.splits simp: Split_nonempty)

lemma SplitN2_no_sep: "sep \<notin> set s \<Longrightarrow> SplitN2 s sep = [s]"
  by (simp add: SplitN2_def)

lemma SplitN2_append: "sep \<notin> set w \<Longrightarrow> SplitN2 (w @ sep # rest) sep = [w, rest]"
  by (induction w) (auto simp: SplitN2_def)

lemma dropWhile_none: "\<forall>x \<in> set xs. \<not> P x \<Longrightarrow> dropWhile P xs = xs"
  by (cases xs) auto

lemma Trim_no_cut: "\<forall>c \<in> set s. c \<notin> set cutset \<Longrightarrow> Trim s cutset = s"
  unfolding Trim_def by (simp add: dropWhile_none)

lemma toLower_idem: "toLowerChar (toLowerChar c) = toLowerChar c"
  by (simp add: toLowerChar_def upperLetters_def lowerLetters_def)

lemma toLower_upper_lower: "toLowerChar (toUpperChar (toLowerChar c)) = toLowerChar c"
  by (simp add: toLowerChar_def toUpperChar_def upperLetters_def lowerLetters_def)

lemma toUpper_lower: "toUpperChar (toLowerChar c) = toUpperChar c"
  by (simp add: toLowerChar_def toUpperChar_def upperLetters_def lowerLetters_def)

text \<open>On ASCII text the two case maps work byte by byte.\<close>

lemma mapRunesFrom_ascii: "isASCII s \<Longrightarrow> mapRunesFrom 0 fa fw s = map fa s"
  by (induction s) (simp_all add: isASCII_def)

lemma ToLower_ascii: "isASCII s \<Longrightarrow> ToLower tbl s = map toLowerChar s"
  by (simp add: ToLower_def mapRunesFrom_ascii)

lemma ToUpper_ascii: "isASCII s \<Longrightarrow> ToUpper tbl s = map toUpperChar s"
  by (simp add: ToUpper_def mapRunesFrom_ascii)

lemma toLowerChar_ascii: "(of_char c :: nat) < 128 \<Longrightarrow> (of_char (toLowerChar c) :: nat) < 128"
  by (simp add: toLowerChar_def upperLetters_def lowerLetters_def)

lemma isASCII_lower: "isASCII s \<Longrightarrow> isASCII (map toLowerChar s)"
  by (simp add: isASCII_def list_all_iff toLowerChar_ascii)

lemma isASCII_take_drop: "isASCII s \<Longrightarrow> isASCII (take n s) \<and> isASCII (drop n s)"
  by (auto simp: isASCII_def list_all_iff dest: in_set_takeD in_set_dropD)

lemma lower_mangle:
  "map toLowerChar (map toUpperChar (take 1 (map toLowerChar w))
      @ map toLowerChar (drop 1 (map toLowerChar w))) = map toLowerChar w"
proof -
  have "map toLowerChar (map toUpperChar (take 1 (map toLowerChar w)))
        = take 1 (map toLowerChar w)"
    by (cases w) (simp_all add: toLower_upper_lower)
  moreover have "map toLowerChar (map toLowerChar (drop 1 (map toLowerChar w)))
        = drop 1 (map toLowerChar w)"
    by (simp add: toLower_idem drop_map)
  ultimately show ?thesis
    by (metis append_take_drop_id map_append)
qed

lemma methodByName_unknown:
  assumes "map toLowerChar m \<notin> set instructions"
  shows "methodByName h ops (''Cmd'' @ m) = None"
proof -
  have "m \<noteq> n" if "map toLowerChar n \<in> set instructions" for n
    using assms that by auto
  then have "m \<noteq> ''From''" "m \<noteq> ''Onbuild''" "m \<noteq> ''Maintainer''" "m \<noteq> ''Run''"
    "m \<noteq> ''Env''" "m \<noteq> ''Cmd''" "m \<noteq> ''Entrypoint''" "m \<noteq> ''Expose''" "m \<noteq> ''User''"
    "m \<noteq> ''Insert''" "m \<noteq> ''Copy''" "m \<noteq> ''Workdir''" "m \<noteq> ''Volume''" "m \<noteq> ''Add''"
    by (simp_all add: instructions_def case_defs)
  then show ?thesis
    by (simp add: methodByName_def)
qed

text \<open>
  Claim C9. A line without a space, that is a bare keyword with no argument, known or
  not, makes \<open>BuildStep\<close> return the invalid-format error before anything is dispatched,
  and the loop of \<open>Build\<close> stops with that error; a keyword that no \<open>Cmd\<close> method
  answers to (an ASCII word), followed by an argument, only adds the warning to the
  error stream and returns nil.
\<close>
theorem C9_bare_keyword_is_invalid_format:
  "(CHR '' '' \<notin> set expression \<longrightarrow>
      BuildStep ops name expression b =
        Failed InvalidDockerfileFormat
          (b\<lparr>outStream := outStream b @ [MsgStep name expression]\<rparr>))
   \<and> (instruction \<noteq> [] \<and> CHR '' '' \<notin> set instruction \<and> isASCII instruction \<and>
        ToLower (LowerTable ops) instruction \<notin> set instructions \<longrightarrow>
      BuildStep ops name (instruction @ CHR '' '' # arguments) b =
        Done (b\<lparr>outStream := outStream b @ [MsgStep name (instruction @ CHR '' '' # arguments)],
                errStream := errStream b @ [MsgSkippingUnknown
                  (ToUpper (UpperTable ops) (ToLower (LowerTable ops) instruction))]\<rparr>))
   \<and> (trimLine l \<noteq> [] \<and> CHR '' '' \<notin> set (trimLine l) \<longrightarrow>
      (\<exists>b'. buildLoop ops stepN (l # ls) b = Failed InvalidDockerfileFormat b'))"
proof (intro conjI impI)
  assume "CHR '' '' \<notin> set expression"
  then show "BuildStep ops name expression b =
        Failed InvalidDockerfileFormat
          (b\<lparr>outStream := outStream b @ [MsgStep name expression]\<rparr>)"
    by (simp add: BuildStep_def BuildStepWith_def SplitN2_no_sep)
next
  assume a: "instruction \<noteq> [] \<and> CHR '' '' \<notin> set instruction \<and> isASCII instruction \<and>
        ToLower (LowerTable ops) instruction \<notin> set instructions"
  then have split: "SplitN2 (instruction @ CHR '' '' # arguments) (CHR '' '') = [instruction, arguments]"
    by (simp add: SplitN2_append)
  have trim: "Trim instruction '' '' = instruction"
    using a by (intro Trim_no_cut) auto
  have low: "ToLower (LowerTable ops) instruction = map toLowerChar instruction"
    using a by (simp add: ToLower_ascii)
  have ne: "ToLower (LowerTable ops) instruction \<noteq> []"
    using a by (simp add: low)
  have asc: "isASCII (take 1 (map toLowerChar instruction))"
    "isASCII (drop 1 (map toLowerChar instruction))"
    using a by (simp_all add: isASCII_lower isASCII_take_drop)
  have "map toLowerChar instruction \<notin> set instructions"
    using a by (simp add: low)
  then have "map toLowerChar (map toUpperChar (take 1 (map toLowerChar instruction))
      @ map toLowerChar (drop 1 (map toLowerChar instruction))) \<notin> set instructions"
    by (subst lower_mangle)
  then have "methodByName (CmdFrom ops) ops
      (''Cmd'' @ map toUpperChar (take 1 (map toLowerChar instruction))
         @ map toLowerChar (drop 1 (map toLowerChar instruction))) = None"
    by (rule methodByName_unknown)
  then have none: "methodByName (CmdFrom ops) ops
      (''Cmd'' @ ToUpper (UpperTable ops) (take 1 (ToLower (LowerTable ops) instruction))
         @ ToLower (LowerTable ops) (drop 1 (ToLower (LowerTable ops) instruction))) = None"
    unfolding low ToUpper_ascii [OF asc(1)] ToLower_ascii [OF asc(2)] .
  show "BuildStep ops name (instruction @ CHR '' '' # arguments) b =
        Done (b\<lparr>outStream := outStream b @ [MsgStep name (instruction @ CHR '' '' # arguments)],
                errStream := errStream b @ [MsgSkippingUnknown
                  (ToUpper (UpperTable ops) (ToLower (LowerTable ops) instruction))]\<rparr>)"
    unfolding BuildStep_def BuildStepWith_def
    using ne none by (simp add: split trim Let_def del: append.simps)
next
  assume "trimLine l \<noteq> [] \<and> CHR '' '' \<notin> set (trimLine l)"
  then show "\<exists>b'. buildLoop ops stepN (l # ls) b = Failed InvalidDockerfileFormat b'"
    by (simp add: BuildStep_def BuildStepWith_def SplitN2_no_sep Let_def)
qed

text \<open>Claim C9 at \<open>RUN\<close> (a known keyword, no argument) and at \<open>FOO bar\<close>.\<close>
theorem C9_bare_keyword_witness:
  "BuildStep opsPlain (StepN 0) ''RUN'' b0 =
     Failed InvalidDockerfileFormat (b0\<lparr>outStream := outStream b0 @ [MsgStep (StepN 0) ''RUN'']\<rparr>)
   \<and> BuildStep opsPlain (StepN 1) ''FOO bar'' b0 =
     Done (b0\<lparr>outStream := outStream b0 @ [MsgStep (StepN 1) ''FOO bar''],
              errStream := errStream b0 @ [MsgSkippingUnknown ''FOO'']\<rparr>)"
proof -
  let ?ops = opsPlain
  have h1: "CHR '' '' \<notin> set ''RUN''" by simp
  have h2: "''FOO'' \<noteq> [] \<and> CHR '' '' \<notin> set ''FOO'' \<and> isASCII ''FOO''
      \<and> ToLower (LowerTable opsPlain) ''FOO'' \<notin> set instructions"
    by code_simp
  have up: "ToUpper (UpperTable opsPlain) (ToLower (LowerTable opsPlain) ''FOO'') = ''FOO''"
    by code_simp
  show ?thesis
    using C9_bare_keyword_is_invalid_format [of "''RUN''" ?ops "StepN 0" b0 "''FOO''" "''bar''"]
      C9_bare_keyword_is_invalid_format [of "''x''" ?ops "StepN 1" b0 "''FOO''" "''bar''"]
      h1 h2 up by simp
qed

text \<open>
  Claim C10 says \<open>CmdWorkdir\<close> commits or returns an error on every argument. On the
  empty argument it does neither: it panics, and so does \<open>BuildStep\<close> on the trigger
  \<open>WORKDIR\<close> followed by one space, and \<open>CmdFrom\<close> on a base image that stores this
  trigger.
\<close>
theorem C10_workdir_empty_panics:
  "CmdWorkdir ops [] b = Panicked \<and> BuildStep ops name ''WORKDIR '' b = Panicked
   \<and> CmdFrom (ops0 (\<lambda>n. Inr \<lparr>ID = ''img'', Config = Some 0\<rparr>) (\<lambda>i c. None) False [])
         ''img'' (updConfig (\<lambda>c. c\<lparr>OnBuild := [''WORKDIR '']\<rparr>) b0) = Panicked"
proof -
  have "CmdWorkdir ops [] b = Panicked \<and> BuildStep ops name ''WORKDIR '' b = Panicked"
    by (simp add: CmdWorkdir_def BuildStep_def BuildStepWith_def SplitN2_def Trim_def
        case_defs methodByName_def)
  moreover have "(case CmdFrom (ops0 (\<lambda>n. Inr \<lparr>ID = ''img'', Config = Some 0\<rparr>) (\<lambda>i c. None) False [])
         ''img'' (updConfig (\<lambda>c. c\<lparr>OnBuild := [''WORKDIR '']\<rparr>) b0) of
           Panicked \<Rightarrow> True | _ \<Rightarrow> False)"
    by code_simp
  then have "CmdFrom (ops0 (\<lambda>n. Inr \<lparr>ID = ''img'', Config = Some 0\<rparr>) (\<lambda>i c. None) False [])
         ''img'' (updConfig (\<lambda>c. c\<lparr>OnBuild := [''WORKDIR '']\<rparr>) b0) = Panicked"
    by (simp split: result.splits)
  ultimately show ?thesis by simp
qed

text \<open>
  Claim C3 says an occurrence after an unescaped backslash stays literal and every other
  occurrence is substituted. With \<open>FOO=bar\<close>, the escaped \<open>$FOO\<close> is rewritten as soon as
  the text has an unescaped \<open>$FOO\<close> too; and of two adjacent \<open>${A}${B}\<close> only the first
  is substituted.
\<close>
theorem C3_escaped_occurrence_replaced:
  "ReplaceEnvMatches [''FOO=bar''] (backslash # ''$FOO $FOO'') = Ret (backslash # ''bar bar'')
   \<and> ReplaceEnvMatches [''A=1'', ''B=2''] ''${A}${B}'' = Ret ''1${B}''"
  by code_simp


lemma stripLoop_filter: "stripLoop out ls = out @ filter keepLine ls"
  by (induction ls arbitrary: out) (auto simp: keepLine_def)

lemma replaceFrom_absent: "c \<notin> set s \<Longrightarrow> replaceFrom 0 [c] new s = s"
  by (induction s) auto

lemma replaceFrom_removes: "c \<notin> set new \<Longrightarrow> c \<notin> set (replaceFrom k [c] new s)"
  by (induction s arbitrary: k) auto

lemma set_Trim: "set (Trim s cs) \<subseteq> set s"
  unfolding Trim_def by (metis set_dropWhileD set_rev subsetI)

lemma last_dropWhile_ne: "dropWhile P xs \<noteq> [] \<Longrightarrow> last (dropWhile P xs) = last xs"
  by (induction xs) (auto split: if_splits)

lemma Trim_idem: "Trim (Trim s cs) cs = Trim s cs"
proof -
  define P where "P = (\<lambda>c. c \<in> set cs)"
  define u where "u = dropWhile P s"
  define v where "v = dropWhile P (rev u)"
  have trim: "Trim s cs = rev v"
    by (simp add: Trim_def P_def u_def v_def)
  have "dropWhile P (rev v) = rev v"
  proof (cases "v = []")
    case True
    then show ?thesis by simp
  next
    case False
    then have "last v = last (rev u)"
      unfolding v_def by (rule last_dropWhile_ne)
    moreover have "u \<noteq> []" using False v_def by auto
    ultimately have "last v = hd u" by (simp add: last_rev)
    moreover have "\<not> P (hd u)"
      using \<open>u \<noteq> []\<close> unfolding u_def by (rule hd_dropWhile)
    ultimately have "\<not> P (hd (rev v))" using False by (simp add: hd_rev)
    then show ?thesis using False by (cases "rev v") auto
  qed
  moreover have "dropWhile P v = v"
    unfolding v_def by simp
  ultimately have "rev (dropWhile P (rev (dropWhile P (rev v)))) = rev v"
    by simp
  then show ?thesis
    unfolding trim unfolding Trim_def P_def .
qed

lemma trimLine_idem: "trimLine (trimLine l) = trimLine l"
proof -
  have "tab \<notin> set (Replace l [tab] '' '')"
    by (simp add: Replace_def replaceFrom_removes)
  then have "tab \<notin> set (trimLine l)"
    unfolding trimLine_def using set_Trim by fastforce
  then have "Replace (trimLine l) [tab] '' '' = trimLine l"
    by (simp add: Replace_def replaceFrom_absent)
  then show ?thesis
    by (simp add: trimLine_def [of "trimLine l"]) (simp add: trimLine_def Trim_idem)
qed

lemma buildLoop_trimmed:
  "buildLoop ops n ls b = buildLoop ops n (filter (\<lambda>l. length l \<noteq> 0) (map trimLine ls)) b"
  by (induction ls arbitrary: n b) (auto simp: trimLine_idem Let_def split: result.splits)




section \<open>What a commit changes\<close>

lemma stateOf_simps [simp]:
  "stateOf Panicked = None" "stateOf (Failed e b) = Some b" "stateOf (Done b) = Some b"
  by (simp_all add: stateOf_def)

lemma stateOf_deferred [simp]: "stateOf (deferred f r) = map_option f (stateOf r)"
  by (cases r) (simp_all add: deferred_def)

lemma cfg_updConfig [simp]: "cfg (updConfig f b) = f (cfg b)"
  by (simp add: cfg_def updConfig_def)

lemma updConfig_fields [simp]:
  "config (updConfig f b) = config b" "world (updConfig f b) = world b"
  "imageID (updConfig f b) = imageID b" "cmdSet (updConfig f b) = cmdSet b"
  "maintainer (updConfig f b) = maintainer b" "utilizeCache (updConfig f b) = utilizeCache b"
  "contextPath (updConfig f b) = contextPath b" "contextSums (updConfig f b) = contextSums b"
  "nextAddr (updConfig f b) = nextAddr b"
  by (simp_all add: updConfig_def)

lemma probeCache_keeps:
  "probeCache ops b = (r, b') \<Longrightarrow> heap b' = heap b \<and> config b' = config b \<and> cmdSet b' = cmdSet b
     \<and> nextAddr b' = nextAddr b \<and> world b' = world b"
  by (auto simp: probeCache_def split: if_splits sum.splits option.splits)

lemma commitContainer_keeps:
  "stateOf (commitContainer ops cid autoCmd b) = Some b' \<Longrightarrow>
     heap b' = heap b \<and> config b' = config b \<and> cmdSet b' = cmdSet b \<and> nextAddr b' = nextAddr b"
  by (auto simp: commitContainer_def Let_def split: if_splits sum.splits prod.splits)

lemma commit_not_panicked: "commit ops cid autoCmd comment b \<noteq> Panicked"
  by (auto simp: commit_def commitContainer_def deferred_def Let_def
      split: if_splits sum.splits prod.splits option.splits bool.splits result.splits)

lemma commit_keeps:
  assumes "stateOf (commit ops cid autoCmd comment b) = Some b'"
  shows "keepsConfig b b'"
proof (cases "imageID b = []")
  case True
  with assms show ?thesis
    by (auto simp: commit_def keepsConfig_def cfg_def)
next
  case False
  define b1 where "b1 = updConfig (\<lambda>c. c\<lparr>Image' := imageID b\<rparr>) b"
  show ?thesis
  proof (cases "cid = []")
    case False
    with assms \<open>imageID b \<noteq> []\<close> have "stateOf (commitContainer ops cid autoCmd b1) = Some b'"
      by (simp add: commit_def b1_def)
    from commitContainer_keeps [OF this] show ?thesis
      by (auto simp: keepsConfig_def b1_def cfg_def updConfig_def)
  next
    case True
    define b2 where "b2 = updConfig (\<lambda>c. c\<lparr>Cmd := nop comment\<rparr>) b1"
    define inner where "inner =
       (case probeCache ops b2 of
                  (Inl e, b3) \<Rightarrow> Failed e b3
                | (Inr True, b3) \<Rightarrow> Done b3
                | (Inr False, b3) \<Rightarrow>
                    (case Create ops (world b3) (cfg b3) of
                       (Inl e, w) \<Rightarrow> Failed e (b3\<lparr>world := w\<rparr>)
                     | (Inr (newC, warnings), w) \<Rightarrow>
                         let b4 = b3\<lparr>world := w,
                                    tmpContainers := addTmp newC (tmpContainers b3),
                                    outStream := outStream b3 @ map MsgWarning warnings
                                                 @ [MsgRunningIn newC]\<rparr>
                         in (case Mount ops (world b4) newC of
                               (Some e, w') \<Rightarrow> Failed e (b4\<lparr>world := w'\<rparr>)
                             | (None, w') \<Rightarrow>
                                 deferred (unmount ops newC)
                                   (commitContainer ops newC autoCmd (b4\<lparr>world := w'\<rparr>)))))"
    have eq: "commit ops cid autoCmd comment b = deferred (restoreCmd (Cmd (cfg b1))) inner"
      using True \<open>imageID b \<noteq> []\<close>
      by (simp add: commit_def inner_def b2_def b1_def Let_def)
    have inner: "heap b3 = heap b2 \<and> config b3 = config b2 \<and> cmdSet b3 = cmdSet b2 \<and>
        nextAddr b3 = nextAddr b2" if "stateOf inner = Some b3" for b3
      using that unfolding inner_def
      by (auto simp: Let_def unmount_def split: prod.splits sum.splits bool.splits option.splits
          dest!: probeCache_keeps commitContainer_keeps)
    from assms eq obtain b3 where b3: "stateOf inner = Some b3" "b' = restoreCmd (Cmd (cfg b1)) b3"
      by auto
    from inner [OF b3(1)] show ?thesis
      unfolding b3(2)
      by (auto simp: keepsConfig_def restoreCmd_def b2_def b1_def cfg_def updConfig_def)
  qed
qed

lemma commit_Env: "stateOf (commit ops cid autoCmd comment b) = Some b' \<Longrightarrow> Env (cfg b') = Env (cfg b)"
  by (drule commit_keeps) (auto simp: keepsConfig_def)

section \<open>ENV\<close>

lemma findEnvKeyFrom_absent:
  "key \<notin> set (map envKeyOf env) \<Longrightarrow> findEnvKeyFrom k env key = - 1"
  by (induction env arbitrary: k) (auto simp: envKeyOf_def)

lemma findEnvKeyFrom_present:
  "key \<in> set (map envKeyOf env) \<Longrightarrow>
     \<exists>i < length env. findEnvKeyFrom k env key = k + int i \<and> envKeyOf (env ! i) = key"
proof (induction env arbitrary: k)
  case Nil
  then show ?case by simp
next
  case (Cons e env)
  show ?case
  proof (cases "key = envKeyOf e")
    case True
    then have "findEnvKeyFrom k (e # env) key = k + int 0 \<and> envKeyOf ((e # env) ! 0) = key"
      by (simp add: envKeyOf_def)
    then show ?thesis by blast
  next
    case False
    with Cons.prems have "key \<in> set (map envKeyOf env)" by auto
    from Cons.IH [OF this, of "k + 1"] obtain i where
      "i < length env" "findEnvKeyFrom (k + 1) env key = k + 1 + int i" "envKeyOf (env ! i) = key"
      by blast
    with False have "Suc i < length (e # env) \<and>
        findEnvKeyFrom k (e # env) key = k + int (Suc i) \<and> envKeyOf ((e # env) ! Suc i) = key"
      by (simp add: envKeyOf_def)
    then show ?thesis by blast
  qed
qed

lemma envKeyOf_entry [simp]:
  "CHR ''='' \<notin> set key \<Longrightarrow> envKeyOf (key @ CHR ''='' # v) = key"
  by (simp add: envKeyOf_def SplitN2_append)

lemma distinct_keys_update:
  assumes "distinct (map f xs)" "i < length xs" "f (xs ! i) = f y"
  shows "distinct (map f (xs[i := y]))"
proof -
  have "map f (xs[i := y]) = (map f xs)[i := f (xs ! i)]"
    using assms by (simp add: map_update)
  also have "\<dots> = map f xs"
    using assms by (metis list_update_id map_update)
  finally show ?thesis using assms by simp
qed

text \<open>The \<open>Env\<close> that \<open>CmdEnv\<close> writes before it commits.\<close>

lemma CmdEnv_state:
  assumes "stateOf (CmdEnv ops args b) = Some b'"
    and "SplitN2 args (CHR '' '') = [t0, t1]"
  shows "\<exists>v. ReplaceEnvMatches (Env (cfg b)) (Trim t1 [CHR '' '', tab]) = Ret v \<and>
     Env (cfg b') =
       (if 0 \<le> FindEnvKey b (Trim t0 [CHR '' '', tab])
        then (Env (cfg b))[nat (FindEnvKey b (Trim t0 [CHR '' '', tab]))
                := Trim t0 [CHR '' '', tab] @ ''='' @ v]
        else Env (cfg b) @ [Trim t0 [CHR '' '', tab] @ ''='' @ v])"
  using assms
  by (auto simp: CmdEnv_def Let_def split: go.splits if_splits dest!: commit_Env)

text \<open>
  Claim C6, amended. Whatever \<open>CmdEnv\<close> returns, the entry of a key that is present is
  replaced where it stands and the entry of a new key is appended; and when the key
  contains no \<open>=\<close>, an \<open>Env\<close> with one entry per key has one entry per key afterwards.
\<close>
theorem C6_env_in_place_keys_distinct:
  assumes "stateOf (CmdEnv ops args b) = Some b'"
    and "SplitN2 args (CHR '' '') = [t0, t1]"
    and "key = Trim t0 [CHR '' '', tab]"
  shows "\<exists>v. ReplaceEnvMatches (Env (cfg b)) (Trim t1 [CHR '' '', tab]) = Ret v \<and>
     (if key \<in> set (map envKeyOf (Env (cfg b)))
      then \<exists>i < length (Env (cfg b)). envKeyOf (Env (cfg b) ! i) = key \<and>
             Env (cfg b') = (Env (cfg b))[i := key @ ''='' @ v]
      else Env (cfg b') = Env (cfg b) @ [key @ ''='' @ v])
     \<and> (CHR ''='' \<notin> set key \<and> distinct (map envKeyOf (Env (cfg b)))
          \<longrightarrow> distinct (map envKeyOf (Env (cfg b'))))"
proof -
  let ?env = "Env (cfg b)"
  from CmdEnv_state [OF assms(1,2)] obtain v where
    v: "ReplaceEnvMatches ?env (Trim t1 [CHR '' '', tab]) = Ret v"
    and env': "Env (cfg b') =
       (if 0 \<le> FindEnvKey b key then ?env[nat (FindEnvKey b key) := key @ ''='' @ v]
        else ?env @ [key @ ''='' @ v])"
    unfolding assms(3) by blast
  show ?thesis
  proof (cases "key \<in> set (map envKeyOf ?env)")
    case True
    from findEnvKeyFrom_present [OF this, of 0] obtain i where
      i: "i < length ?env" "FindEnvKey b key = int i" "envKeyOf (?env ! i) = key"
      by (auto simp: FindEnvKey_def)
    with env' have upd: "Env (cfg b') = ?env[i := key @ ''='' @ v]" by simp
    have "distinct (map envKeyOf (Env (cfg b')))"
      if "CHR ''='' \<notin> set key" "distinct (map envKeyOf ?env)"
      unfolding upd using that i by (intro distinct_keys_update) simp_all
    with True v i upd show ?thesis by auto
  next
    case False
    then have "FindEnvKey b key = - 1"
      by (simp add: FindEnvKey_def findEnvKeyFrom_absent)
    with env' have app: "Env (cfg b') = ?env @ [key @ ''='' @ v]" by simp
    have "distinct (map envKeyOf (Env (cfg b')))"
      if "CHR ''='' \<notin> set key" "distinct (map envKeyOf ?env)"
      unfolding app using that False by simp
    with False v app show ?thesis by auto
  qed
qed


text \<open>
  Claim C6 as stated fails for a key that contains \<open>=\<close>: \<open>ENV A=B C\<close> over \<open>A=1\<close>
  appends \<open>A=B=C\<close>, a second entry whose key is \<open>A\<close>.
\<close>
theorem C6_key_with_equals_duplicates:
  "distinct (map envKeyOf [''A=1''])
   \<and> map_option (\<lambda>b'. Env (cfg b'))
        (stateOf (CmdEnv opsPlain ''A=B C'' (updConfig (\<lambda>c. c\<lparr>Env := [''A=1'']\<rparr>) b0)))
       = Some [''A=1'', ''A=B=C'']
   \<and> \<not> distinct (map envKeyOf [''A=1'', ''A=B=C''])"
  by code_simp

text \<open>Claim C6, amended, at \<open>ENV A 2\<close> over \<open>A=1\<close>, \<open>B=x\<close>.\<close>
theorem C6_env_in_place_witness:
  "SplitN2 ''A 2'' (CHR '' '') = [''A'', ''2''] \<and> CHR ''='' \<notin> set ''A''
   \<and> distinct (map envKeyOf [''A=1'', ''B=x''])
   \<and> (\<exists>b'. stateOf (CmdEnv opsPlain ''A 2''
                (updConfig (\<lambda>c. c\<lparr>Env := [''A=1'', ''B=x'']\<rparr>) b0)) = Some b'
          \<and> Env (cfg b') = [''A=2'', ''B=x'']
          \<and> distinct (map envKeyOf (Env (cfg b'))))"
proof -
  let ?b = "updConfig (\<lambda>c. c\<lparr>Env := [''A=1'', ''B=x'']\<rparr>) b0"
  have "map_option (\<lambda>b'. Env (cfg b')) (stateOf (CmdEnv opsPlain ''A 2'' ?b))
      = Some [''A=2'', ''B=x'']"
    by code_simp
  then obtain b' where b': "stateOf (CmdEnv opsPlain ''A 2'' ?b) = Some b'"
      "Env (cfg b') = [''A=2'', ''B=x'']"
    by auto
  have sp: "SplitN2 ''A 2'' (CHR '' '') = [''A'', ''2'']" by code_simp
  have k: "''A'' = Trim ''A'' [CHR '' '', tab]" by code_simp
  have d: "distinct (map envKeyOf (Env (cfg ?b)))" by code_simp
  have d': "distinct (map envKeyOf [''A=1'', ''B=x''])" by code_simp
  from C6_env_in_place_keys_distinct [OF b'(1) sp k] d
  have "distinct (map envKeyOf (Env (cfg b')))" by auto
  with b' sp d' show ?thesis by auto
qed

section \<open>ENTRYPOINT\<close>

lemma commit_Done_cases:
  assumes "commit ops [] autoCmd comment b = Done b'"
  shows "(utilizeCache b \<and>
           (\<exists>img. ImageGetCached ops (world b) (imageID b)
                    ((cfg b)\<lparr>Image' := imageID b, Cmd := nop comment\<rparr>) = Inr (Some img)
                  \<and> imageID b' = ID img))
         \<or> (\<exists>w c w'. Commit ops w c (maintainer b)
                        ((cfg b)\<lparr>Image' := imageID b, Cmd := autoCmd\<rparr>) = (Inr (imageID b'), w'))"
  using assms
  unfolding commit_def commitContainer_def probeCache_def deferred_def restoreCmd_def
    unmount_def Let_def cfg_def updConfig_def
  by (auto split: if_splits sum.splits prod.splits option.splits bool.splits result.splits)
    blast+

lemma commit_miss:
  assumes "commit ops [] autoCmd comment b = Done b'"
    and "\<not> utilizeCache b \<or> ImageGetCached ops (world b) (imageID b)
           ((cfg b)\<lparr>Image' := imageID b, Cmd := nop comment\<rparr>) = Inr None"
  shows "\<exists>w c w'. Commit ops w c (maintainer b)
           ((cfg b)\<lparr>Image' := imageID b, Cmd := autoCmd\<rparr>) = (Inr (imageID b'), w')"
  using commit_Done_cases [OF assms(1)] assms(2) by auto

lemma commit_hit:
  assumes "imageID b \<noteq> []" "utilizeCache b"
    and "ImageGetCached ops (world b) (imageID b)
           ((cfg b)\<lparr>Image' := imageID b, Cmd := nop comment\<rparr>) = Inr (Some img)"
  shows "\<exists>b'. commit ops [] autoCmd comment b = Done b' \<and> imageID b' = ID img
           \<and> world b' = world b"
  using assms
  unfolding commit_def probeCache_def deferred_def restoreCmd_def Let_def cfg_def updConfig_def
  by simp

text \<open>
  Claim C5, amended. \<open>CmdEntrypoint\<close> does not panic; in the state it leaves,
  \<open>Entrypoint\<close> is the parsed argument and \<open>Cmd\<close> is empty unless a \<open>CMD\<close> was seen
  (\<open>cmdSet\<close>), in which case \<open>Cmd\<close> is as it was. When the cache does not answer the
  probe (it is off, or it finds no image) and the step succeeds, the daemon has
  committed the config with that \<open>Entrypoint\<close> and that \<open>Cmd\<close>, so an empty \<open>Cmd\<close> when no
  \<open>CMD\<close> was seen. When the cache answers, the step succeeds without touching the
  daemon and the build moves to the cached image.
\<close>
theorem C5_entrypoint_clears_inherited_cmd:
  "CmdEntrypoint ops args b \<noteq> Panicked
    \<and> (\<forall>b'. stateOf (CmdEntrypoint ops args b) = Some b' \<longrightarrow>
          Entrypoint (cfg b') = buildCmdFromJson ops args
          \<and> Cmd (cfg b') = (if cmdSet b then Cmd (cfg b) else [])
          \<and> cmdSet b' = cmdSet b)
    \<and> (\<forall>b'. CmdEntrypoint ops args b = Done b'
           \<and> (\<not> utilizeCache b \<or> ImageGetCached ops (world b) (imageID b)
                 ((cfg b)\<lparr>Entrypoint := buildCmdFromJson ops args, Image' := imageID b,
                          Cmd := nop (''ENTRYPOINT '' @ showList (buildCmdFromJson ops args))\<rparr>)
                   = Inr None) \<longrightarrow>
          (\<exists>w c w'. Commit ops w c (maintainer b)
                 ((cfg b)\<lparr>Entrypoint := buildCmdFromJson ops args, Image' := imageID b,
                          Cmd := (if cmdSet b then Cmd (cfg b) else [])\<rparr>)
                   = (Inr (imageID b'), w')))
    \<and> (\<forall>img. imageID b \<noteq> [] \<and> utilizeCache b
           \<and> ImageGetCached ops (world b) (imageID b)
                 ((cfg b)\<lparr>Entrypoint := buildCmdFromJson ops args, Image' := imageID b,
                          Cmd := nop (''ENTRYPOINT '' @ showList (buildCmdFromJson ops args))\<rparr>)
                   = Inr (Some img) \<longrightarrow>
          (\<exists>b'. CmdEntrypoint ops args b = Done b' \<and> imageID b' = ID img
                \<and> world b' = world b))"
proof -
  define E where "E = buildCmdFromJson ops args"
  define K where "K = (if cmdSet b then Cmd (cfg b) else [])"
  define b1 where "b1 = updConfig (\<lambda>c. c\<lparr>Entrypoint := E\<rparr>) b"
  define b2 where "b2 = (if \<not> cmdSet b1 then updConfig (\<lambda>c. c\<lparr>Cmd := []\<rparr>) b1 else b1)"
  have s1: "cmdSet b1 = cmdSet b" by (simp add: b1_def)
  have c2: "cfg b2 = (cfg b)\<lparr>Entrypoint := E, Cmd := K\<rparr>"
    by (rule Config.equality) (simp_all add: b2_def b1_def K_def)
  have k2: "Cmd (cfg b2) = K" by (simp add: c2)
  have eq: "CmdEntrypoint ops args b = commit ops [] K (''ENTRYPOINT '' @ showList E) b2"
    unfolding CmdEntrypoint_def Let_def E_def [symmetric] b1_def [symmetric]
      b2_def [symmetric] k2 ..
  have f2: "imageID b2 = imageID b" "world b2 = world b" "maintainer b2 = maintainer b"
    "utilizeCache b2 = utilizeCache b" "cmdSet b2 = cmdSet b"
    by (simp_all add: b2_def b1_def)
  have r: "(cfg b2)\<lparr>Image' := imageID b, Cmd := cmd\<rparr>
      = (cfg b)\<lparr>Entrypoint := E, Image' := imageID b, Cmd := cmd\<rparr>" for cmd
    by (rule Config.equality) (simp_all add: c2)
  have 1: "CmdEntrypoint ops args b \<noteq> Panicked"
    unfolding eq by (rule commit_not_panicked)
  have 2: "Entrypoint (cfg b') = E \<and> Cmd (cfg b') = K \<and> cmdSet b' = cmdSet b"
    if "stateOf (CmdEntrypoint ops args b) = Some b'" for b'
    using commit_keeps [OF that [unfolded eq]] by (auto simp: keepsConfig_def c2 f2)
  have 3: "\<exists>w c w'. Commit ops w c (maintainer b)
        ((cfg b)\<lparr>Entrypoint := E, Image' := imageID b, Cmd := K\<rparr>) = (Inr (imageID b'), w')"
    if d: "CmdEntrypoint ops args b = Done b'"
      and m: "\<not> utilizeCache b \<or> ImageGetCached ops (world b) (imageID b)
                 ((cfg b)\<lparr>Entrypoint := E, Image' := imageID b,
                          Cmd := nop (''ENTRYPOINT '' @ showList E)\<rparr>) = Inr None"
    for b'
  proof -
    from m have "\<not> utilizeCache b2 \<or> ImageGetCached ops (world b2) (imageID b2)
        ((cfg b2)\<lparr>Image' := imageID b2, Cmd := nop (''ENTRYPOINT '' @ showList E)\<rparr>) = Inr None"
      unfolding f2 r .
    from commit_miss [OF d [unfolded eq] this] show ?thesis
      unfolding f2 r .
  qed
  have 4: "\<exists>b'. CmdEntrypoint ops args b = Done b' \<and> imageID b' = ID img \<and> world b' = world b"
    if h: "imageID b \<noteq> []" "utilizeCache b"
      "ImageGetCached ops (world b) (imageID b)
                 ((cfg b)\<lparr>Entrypoint := E, Image' := imageID b,
                          Cmd := nop (''ENTRYPOINT '' @ showList E)\<rparr>) = Inr (Some img)"
    for img
  proof -
    have a1: "imageID b2 \<noteq> []" unfolding f2 by (rule h(1))
    have a2: "utilizeCache b2" unfolding f2 by (rule h(2))
    have a3: "ImageGetCached ops (world b2) (imageID b2)
        ((cfg b2)\<lparr>Image' := imageID b2, Cmd := nop (''ENTRYPOINT '' @ showList E)\<rparr>)
         = Inr (Some img)"
      unfolding f2 r by (rule h(3))
    from commit_hit [OF a1 a2 a3, of K] show ?thesis
      unfolding eq f2 .
  qed
  from 1 2 3 4 show ?thesis
    unfolding E_def K_def by blast
qed

text \<open>
  Claim C5 as stated fails on a cache hit. The base config carries \<open>Cmd = ["b"]\<close>, no
  \<open>CMD\<close> was seen, and the cache answers the probe of \<open>ENTRYPOINT a\<close> with the image
  \<open>cached\<close>, whose config (address 1) carries \<open>Cmd = ["b"]\<close>: the step succeeds,
  nothing is committed, and the build is on \<open>cached\<close>.
\<close>
theorem C5_cache_hit_commits_nothing:
  "\<not> cmdSet (b0\<lparr>heap := (\<lambda>a. emptyConfig\<lparr>Cmd := [''b'']\<rparr>)\<rparr>)
   \<and> Cmd (cfg (b0\<lparr>heap := (\<lambda>a. emptyConfig\<lparr>Cmd := [''b'']\<rparr>)\<rparr>)) = [''b'']
   \<and> (case CmdEntrypoint (ops0 (\<lambda>n. Inl (External ''no such image''))
                              (\<lambda>i c. Some \<lparr>ID = ''cached'', Config = Some 1\<rparr>) False [])
             ''a'' (b0\<lparr>heap := (\<lambda>a. emptyConfig\<lparr>Cmd := [''b'']\<rparr>)\<rparr>) of
         Done b' \<Rightarrow> imageID b' = ''cached'' \<and> committed (world b') = []
                   \<and> Cmd (heap b' 1) = [''b'']
       | _ \<Rightarrow> False)"
  by code_simp

text \<open>
  Claim C5, amended, over a base config with \<open>Cmd = ["b"]\<close> and a cache that finds no
  image: the one config committed has an empty \<open>Cmd\<close>.
\<close>
theorem C5_entrypoint_witness:
  "\<not> cmdSet (updConfig (\<lambda>c. c\<lparr>Cmd := [''b'']\<rparr>) b0)
   \<and> (\<exists>b'. CmdEntrypoint opsPlain ''a'' (updConfig (\<lambda>c. c\<lparr>Cmd := [''b'']\<rparr>) b0) = Done b'
         \<and> Entrypoint (cfg b') = [''/bin/sh'', ''-c'', ''a''] \<and> Cmd (cfg b') = []
         \<and> map Cmd (committed (world b')) = [[]])"
proof -
  let ?b = "updConfig (\<lambda>c. c\<lparr>Cmd := [''b'']\<rparr>) b0"
  have h: "\<not> cmdSet ?b" by code_simp
  have "(case CmdEntrypoint opsPlain ''a'' ?b of
           Done b' \<Rightarrow> map Cmd (committed (world b')) = [[]] | _ \<Rightarrow> False)"
    by code_simp
  then obtain b' where b': "CmdEntrypoint opsPlain ''a'' ?b = Done b'"
      "map Cmd (committed (world b')) = [[]]"
    by (auto split: result.splits)
  have e: "buildCmdFromJson opsPlain ''a'' = [''/bin/sh'', ''-c'', ''a'']" by code_simp
  from C5_entrypoint_clears_inherited_cmd [of opsPlain "''a''" ?b] b'(1) h
  have "Entrypoint (cfg b') = buildCmdFromJson opsPlain ''a'' \<and> Cmd (cfg b') = []"
    by simp
  with h b' e show ?thesis by auto
qed

section \<open>ONBUILD triggers\<close>

text \<open>
  Claim C7 fails in the code. The check refuses \<open>maintainer evil\<close>, also when each
  \<open>i\<close> is the rune U+0131 (small i without a dot, the bytes C4 B1). The trigger
  \<open>MA?NTA?NER evil\<close>, where \<open>?\<close> stands for the rune U+0130 (capital I with a dot, the
  bytes C4 B0), is none of the three words after upper-casing, so \<open>CmdOnbuild\<close> stores
  it; a later \<open>CmdFrom\<close> on an image that stores it lets it through its own check too,
  and \<open>BuildStep\<close> lower-cases the keyword to \<open>maintainer\<close> and runs \<open>CmdMaintainer\<close>. A
  stored trigger that begins with a space passes the check of \<open>CmdFrom\<close> as the empty
  word, and the step panics on the first byte of an empty keyword.
\<close>
theorem C7_trigger_check_let_through:
  "(case CmdOnbuild opsPlain ''maintainer evil'' b0 of
      Failed e b' \<Rightarrow> e = NotAllowedAsTrigger ''MAINTAINER'' \<and> OnBuild (cfg b') = []
    | _ \<Rightarrow> False)
   \<and> (case CmdOnbuild opsPlain
             (''ma'' @ [char_of (0xC4 :: nat), char_of (0xB1 :: nat)] @ ''nta''
                @ [char_of (0xC4 :: nat), char_of (0xB1 :: nat)] @ ''ner evil'') b0 of
        Failed e b' \<Rightarrow> e = NotAllowedAsTrigger ''MAINTAINER'' \<and> OnBuild (cfg b') = []
      | _ \<Rightarrow> False)
   \<and> (case CmdOnbuild opsPlain
             (''MA'' @ [char_of (0xC4 :: nat), char_of (0xB0 :: nat)] @ ''NTA''
                @ [char_of (0xC4 :: nat), char_of (0xB0 :: nat)] @ ''NER evil'') b0 of
        Done b' \<Rightarrow> OnBuild (cfg b')
            = [''MA'' @ [char_of (0xC4 :: nat), char_of (0xB0 :: nat)] @ ''NTA''
                @ [char_of (0xC4 :: nat), char_of (0xB0 :: nat)] @ ''NER evil'']
      | _ \<Rightarrow> False)
   \<and> (case CmdFrom (ops0 (\<lambda>n. Inr \<lparr>ID = ''img'', Config = Some 0\<rparr>) (\<lambda>i c. None) False [])
             ''img''
             (updConfig (\<lambda>c. c\<lparr>OnBuild :=
                [''MA'' @ [char_of (0xC4 :: nat), char_of (0xB0 :: nat)] @ ''NTA''
                   @ [char_of (0xC4 :: nat), char_of (0xB0 :: nat)] @ ''NER evil'']\<rparr>) b0) of
        Done b' \<Rightarrow> maintainer b' = ''evil'' \<and> maintainer b0 = []
      | _ \<Rightarrow> False)
   \<and> (case CmdFrom (ops0 (\<lambda>n. Inr \<lparr>ID = ''img'', Config = Some 0\<rparr>) (\<lambda>i c. None) False [])
             ''img'' (updConfig (\<lambda>c. c\<lparr>OnBuild := ['' FROM busybox'']\<rparr>) b0) of
        Panicked \<Rightarrow> True
      | _ \<Rightarrow> False)"
  by code_simp

section \<open>The path check of COPY and ADD\<close>

text \<open>
  Claim C1 fails in the code. The context root is \<open>/ctx\<close> and the entry \<open>link\<close> of the
  context is a symbolic link that resolves to \<open>/ctx2/x\<close>, a path that is neither the
  root nor under \<open>/ctx/\<close>: the check accepts it, because \<open>/ctx2/x\<close> begins with the
  bytes of \<open>/ctx\<close>, and \<open>COPY link /d\<close> goes on to create a container and commit the
  result. A path that leaves the root by \<open>..\<close> is refused as the check intends.
\<close>
theorem C1_sibling_of_context_root_accepted:
  "contextPath b0 = ''/ctx''
   \<and> EvalSymlinks (opsPlain\<lparr>EvalSymlinks :=
         (\<lambda>w p. if p = ''/ctx/link'' then Inr ''/ctx2/x'' else Inr p)\<rparr>)
       (world b0) (pathJoin [contextPath b0, ''link'']) = Inr ''/ctx2/x''
   \<and> ''/ctx2/x'' \<noteq> contextPath b0
   \<and> \<not> HasPrefix ''/ctx2/x'' (contextPath b0 @ ''/'')
   \<and> checkPathForAddition (opsPlain\<lparr>EvalSymlinks :=
         (\<lambda>w p. if p = ''/ctx/link'' then Inr ''/ctx2/x'' else Inr p)\<rparr>) ''link'' b0 = None
   \<and> (case CmdCopy (opsPlain\<lparr>EvalSymlinks :=
         (\<lambda>w p. if p = ''/ctx/link'' then Inr ''/ctx2/x'' else Inr p)\<rparr>) ''link /d'' b0 of
         Done b' \<Rightarrow> length (created (world b')) = 1 \<and> length (committed (world b')) = 1
       | _ \<Rightarrow> False)
   \<and> checkPathForAddition (opsPlain\<lparr>EvalSymlinks :=
         (\<lambda>w p. if p = ''/ctx/link'' then Inr ''/ctx2/x'' else Inr p)\<rparr>) ''../etc/passwd'' b0
       = Some (ForbiddenPath ''../etc/passwd'' ''/etc/passwd'')"
  by code_simp

text \<open>
  Claim C8 says a cache hit under an empty content hash leaves \<open>b.image\<close> alone. The
  source \<open>f\<close> has no checksum, the hash is empty, the cache answers \<open>cached\<close>: when
  \<open>Create\<close> then fails, the build is left on the image \<open>cached\<close>; when it succeeds, the
  container is created from \<open>base\<close> and the config committed names \<open>cached\<close> as its
  image.
\<close>
theorem C8_cache_hit_without_hash_moves_image:
  "imageID b0 = ''base'' \<and> contextSums b0 = Some []
   \<and> (case CmdCopy (ops0 (\<lambda>n. Inl (External ''no such image''))
                    (\<lambda>i c. Some \<lparr>ID = ''cached'', Config = None\<rparr>) True []) ''f /d'' b0 of
         Failed e b' \<Rightarrow> e = External ''create'' \<and> imageID b' = ''cached''
       | _ \<Rightarrow> False)
   \<and> (case CmdCopy (ops0 (\<lambda>n. Inl (External ''no such image''))
                    (\<lambda>i c. Some \<lparr>ID = ''cached'', Config = None\<rparr>) False []) ''f /d'' b0 of
         Done b' \<Rightarrow> map Image' (created (world b')) = [''base'']
                   \<and> map Image' (committed (world b')) = [''cached'']
       | _ \<Rightarrow> False)"
  by code_simp


section \<open>FROM and the base image\<close>

text \<open>
  A case map whose result is ASCII text free of the ASCII images of runes above ASCII
  was applied to ASCII text.
\<close>

lemma encodeRune_hd: "128 \<le> r \<Longrightarrow> \<exists>h t. encodeRune r = h # t \<and> 128 \<le> (of_char h :: nat)"
  unfolding encodeRune_def by (auto simp: mod_if)

lemma decode2_ge: "194 \<le> s0 \<Longrightarrow> s0 \<le> 223 \<Longrightarrow> decode2 s0 rest = Some (r, w) \<Longrightarrow> 128 \<le> r"
proof -
  assume a: "194 \<le> s0" "s0 \<le> 223" and d: "decode2 s0 rest = Some (r, w)"
  from a have "2 \<le> s0 mod 32" by presburger
  then have "128 \<le> (s0 mod 32) * 64 + x" for x by simp
  with d show ?thesis
    by (auto simp: decode2_def split: list.splits if_splits)
qed

lemma decode3_ge: "224 \<le> s0 \<Longrightarrow> s0 \<le> 239 \<Longrightarrow> decode3 s0 rest = Some (r, w) \<Longrightarrow> 128 \<le> r"
proof -
  assume a: "224 \<le> s0" "s0 \<le> 239" and d: "decode3 s0 rest = Some (r, w)"
  from d obtain s1 s2 where r: "r = (s0 mod 16) * 4096 + (s1 mod 64) * 64 + s2 mod 64"
    and s1: "(if s0 = 224 then 160 else 128) \<le> s1" "s1 \<le> 191"
    by (auto simp: decode3_def split: list.splits if_splits)
  show ?thesis
  proof (cases "s0 = 224")
    case True
    with s1 have "32 \<le> s1 mod 64" by presburger
    then show ?thesis unfolding r by simp
  next
    case False
    with a have "1 \<le> s0 mod 16" by presburger
    then have "4096 \<le> (s0 mod 16) * 4096" by simp
    then show ?thesis unfolding r by simp
  qed
qed

lemma decode4_ge: "240 \<le> s0 \<Longrightarrow> s0 \<le> 244 \<Longrightarrow> decode4 s0 rest = Some (r, w) \<Longrightarrow> 128 \<le> r"
proof -
  assume a: "240 \<le> s0" "s0 \<le> 244" and d: "decode4 s0 rest = Some (r, w)"
  from d obtain s1 s2 s3 where
    r: "r = (s0 mod 8) * 262144 + (s1 mod 64) * 4096 + (s2 mod 64) * 64 + s3 mod 64"
    and s1: "(if s0 = 240 then 144 else 128) \<le> s1" "s1 \<le> 191"
    by (auto simp: decode4_def split: list.splits if_splits)
  show ?thesis
  proof (cases "s0 = 240")
    case True
    with s1 have "16 \<le> s1 mod 64" by presburger
    then have "65536 \<le> (s1 mod 64) * 4096" by simp
    then show ?thesis unfolding r by simp
  next
    case False
    with a have "1 \<le> s0 mod 8" by presburger
    then have "262144 \<le> (s0 mod 8) * 262144" by simp
    then show ?thesis unfolding r by simp
  qed
qed

lemma decodeWide_ge: "decodeWide s = Some (r, w) \<Longrightarrow> 128 \<le> r"
  unfolding decodeWide_def
  by (cases "map of_char (take 4 s) :: nat list")
     (auto split: if_splits dest: decode2_ge decode3_ge decode4_ge)

lemma mapRunesFrom_ascii_image:
  assumes "\<And>r. 128 \<le> r \<Longrightarrow> fw r < 128 \<Longrightarrow> char_of (fw r) \<in> S"
    and "isASCII (mapRunesFrom 0 fa fw s)" "set (mapRunesFrom 0 fa fw s) \<inter> S = {}"
  shows "isASCII s \<and> mapRunesFrom 0 fa fw s = map fa s"
  using assms(2,3)
proof (induction s)
  case Nil
  then show ?case by (simp add: isASCII_def)
next
  case (Cons c cs)
  show ?case
  proof (cases "(of_char c :: nat) < 128")
    case True
    with Cons show ?thesis by (simp add: isASCII_def)
  next
    case False
    have "\<exists>r rest. 128 \<le> r \<and> mapRunesFrom 0 fa fw (c # cs) = encodeRune (fw r) @ rest"
    proof (cases "decodeWide (c # cs)")
      case None
      with False have "(128 :: nat) \<le> 65533 \<and>
          mapRunesFrom 0 fa fw (c # cs) = encodeRune (fw 65533) @ mapRunesFrom 0 fa fw cs"
        by simp
      then show ?thesis by blast
    next
      case (Some rw)
      obtain r w where rw: "rw = (r, w)" by (cases rw)
      with Some False have "128 \<le> r \<and>
          mapRunesFrom 0 fa fw (c # cs) = encodeRune (fw r) @ mapRunesFrom (w - 1) fa fw cs"
        by (auto dest: decodeWide_ge)
      then show ?thesis by blast
    qed
    then obtain r rest where r: "128 \<le> r"
      and out: "mapRunesFrom 0 fa fw (c # cs) = encodeRune (fw r) @ rest"
      by blast
    show ?thesis
    proof (cases "fw r < 128")
      case True
      with assms(1) r have "char_of (fw r) \<in> S" by simp
      moreover from True have "encodeRune (fw r) = [char_of (fw r)]"
        by (simp add: encodeRune_def)
      ultimately show ?thesis using Cons.prems(2) out by auto
    next
      case False
      then obtain h t where "encodeRune (fw r) = h # t" "128 \<le> (of_char h :: nat)"
        using encodeRune_hd [of "fw r"] by auto
      with Cons.prems(1) out show ?thesis by (simp add: isASCII_def)
    qed
  qed
qed

lemma toLowerWide_image:
  "128 \<le> r \<Longrightarrow> toLowerWide tbl r < 128 \<Longrightarrow> char_of (toLowerWide tbl r) \<in> {CHR ''i'', CHR ''k''}"
proof -
  have c: "char_of (0x69 :: nat) = CHR ''i''" "char_of (0x6B :: nat) = CHR ''k''"
    by code_simp+
  show "128 \<le> r \<Longrightarrow> toLowerWide tbl r < 128 \<Longrightarrow> ?thesis"
    by (auto simp: toLowerWide_def Let_def c split: if_splits)
qed

lemma ToLower_ascii_image:
  assumes "ToLower tbl s = t" "isASCII t" "CHR ''i'' \<notin> set t" "CHR ''k'' \<notin> set t"
  shows "isASCII s \<and> t = map toLowerChar s"
  using mapRunesFrom_ascii_image [of "toLowerWide tbl" "{CHR ''i'', CHR ''k''}" toLowerChar s]
    toLowerWide_image assms
  unfolding ToLower_def by auto

lemma ToUpper_single:
  assumes "ToUpper tbl [c] @ rest = CHR ''F'' # rest'"
  shows "(of_char c :: nat) < 128 \<and> toUpperChar c = CHR ''F'' \<and> rest = rest'"
proof (cases "(of_char c :: nat) < 128")
  case True
  with assms show ?thesis by (simp add: ToUpper_def)
next
  case False
  have "decodeWide [c] = None"
    by (simp add: decodeWide_def decode2_def decode3_def decode4_def)
  with False have u: "ToUpper tbl [c] = encodeRune (toUpperWide tbl 0xFFFD)"
    by (simp add: ToUpper_def)
  have "128 \<le> toUpperWide tbl 0xFFFD"
    by (simp add: toUpperWide_def Let_def)
  from encodeRune_hd [OF this] obtain h t where
    "encodeRune (toUpperWide tbl 0xFFFD) = h # t" "128 \<le> (of_char h :: nat)" by blast
  with assms u have "128 \<le> (of_char (CHR ''F'') :: nat)" by simp
  then show ?thesis by simp
qed

lemma ToUpper_ToLower: "map toUpperChar (map toLowerChar w) = map toUpperChar w"
  by (simp add: toUpper_lower)

lemma methodByName_not_from:
  "m \<noteq> ''From'' \<Longrightarrow> methodByName h1 ops (''Cmd'' @ m) = methodByName h2 ops (''Cmd'' @ m)"
  by (simp add: methodByName_def)

lemma mangle_From:
  assumes "ToUpper up (take 1 (ToLower lo w)) @ ToLower lo (drop 1 (ToLower lo w)) = ''From''"
  shows "ToUpper up w = ''FROM''"
proof -
  define i where "i = ToLower lo w"
  have eq: "ToUpper up (take 1 i) @ ToLower lo (drop 1 i) = ''From''"
    using assms by (simp add: i_def)
  have "i \<noteq> []"
    using eq by (auto simp: ToUpper_def ToLower_def)
  then obtain c rest where i: "i = c # rest" by (cases i) auto
  from eq have "ToUpper up [c] @ ToLower lo rest = CHR ''F'' # ''rom''"
    by (simp add: i)
  from ToUpper_single [OF this] have c: "(of_char c :: nat) < 128" "toUpperChar c = CHR ''F''"
    and rom: "ToLower lo rest = ''rom''"
    by simp_all
  have "isASCII ''rom''" by (simp add: isASCII_def)
  with rom have rest: "isASCII rest" "''rom'' = map toLowerChar rest"
    using ToLower_ascii_image [of lo rest "''rom''"] by simp_all
  have ci: "c \<noteq> CHR ''i''" "c \<noteq> CHR ''k''"
    using c(2) by (auto simp: toUpperChar_def lowerLetters_def upperLetters_def)
  have ri: "CHR ''i'' \<notin> set rest" "CHR ''k'' \<notin> set rest"
  proof -
    have "toLowerChar x \<in> set ''rom''" if "x \<in> set rest" for x
      using that rest(2) by (metis image_eqI set_map)
    moreover have "toLowerChar (CHR ''i'') = CHR ''i''" "toLowerChar (CHR ''k'') = CHR ''k''"
      by (simp_all add: toLowerChar_def lowerLetters_def upperLetters_def)
    ultimately show "CHR ''i'' \<notin> set rest" "CHR ''k'' \<notin> set rest" by fastforce+
  qed
  have "isASCII i"
    using c(1) rest(1) by (simp add: i isASCII_def)
  with ci ri have w: "isASCII w" "i = map toLowerChar w"
    using ToLower_ascii_image [of lo w i] by (simp_all add: i_def [symmetric] i)
  have "ToUpper up w = map toUpperChar w"
    using w(1) by (rule ToUpper_ascii)
  also have "\<dots> = map toUpperChar i"
    by (simp add: w(2) toUpper_lower)
  also have "\<dots> = toUpperChar c # map toUpperChar (map toLowerChar rest)"
    by (simp add: i toUpper_lower)
  also have "\<dots> = ''FROM''"
    unfolding rest(2) [symmetric] c(2)
    by (simp add: toUpperChar_def lowerLetters_def upperLetters_def)
  finally show ?thesis .
qed

lemma SplitN2_first:
  "SplitN2 s sep = [t0, t1] \<Longrightarrow> t0 = hd (Split s sep)"
  by (auto simp: SplitN2_def hd_Split split: if_splits)

lemma BuildStepWith_not_from:
  assumes "ToUpper (UpperTable ops) (Trim (hd (Split step (CHR '' ''))) '' '') \<noteq> ''FROM''"
  shows "BuildStepWith h1 ops n step b = BuildStepWith h2 ops n step b"
proof (cases "\<exists>t0 t1. SplitN2 step (CHR '' '') = [t0, t1]")
  case False
  then show ?thesis
    by (auto simp: BuildStepWith_def Let_def split: list.splits)
next
  case True
  then obtain t0 t1 where sp: "SplitN2 step (CHR '' '') = [t0, t1]" by blast
  then have t0: "t0 = hd (Split step (CHR '' ''))" by (rule SplitN2_first)
  define i where "i = ToLower (LowerTable ops) (Trim t0 '' '')"
  have "ToUpper (UpperTable ops) (take 1 i) @ ToLower (LowerTable ops) (drop 1 i) \<noteq> ''From''"
    using assms mangle_From [of "UpperTable ops" "LowerTable ops" "Trim t0 '' ''"]
    unfolding i_def t0 by blast
  then have "methodByName h1 ops
        (''Cmd'' @ ToUpper (UpperTable ops) (take 1 i) @ ToLower (LowerTable ops) (drop 1 i))
      = methodByName h2 ops
        (''Cmd'' @ ToUpper (UpperTable ops) (take 1 i) @ ToLower (LowerTable ops) (drop 1 i))"
    by (rule methodByName_not_from)
  then show ?thesis
    unfolding BuildStepWith_def Let_def sp i_def by simp
qed

lemma runTriggers_cong:
  assumes "\<And>n step b. ToUpper (UpperTable ops) (Trim (hd (Split step (CHR '' ''))) '' '') \<noteq> ''FROM''
              \<Longrightarrow> f n step b = g n step b"
  shows "runTriggers ops f n ts b = runTriggers ops g n ts b"
proof (induction ts arbitrary: n b)
  case Nil
  then show ?case by simp
next
  case (Cons t ts)
  show ?case
    using assms [of t "OnbuildN n" b] Cons.IH
    by (auto simp: Let_def split: result.splits)
qed

text \<open>The equation of the source: \<open>CmdFrom\<close> runs its triggers through \<open>BuildStep\<close>.\<close>

lemma CmdFrom_unfold: "CmdFrom ops name b = CmdFromWith (BuildStep ops) ops name b"
proof -
  have "runTriggers ops (triggerStep ops) n ts b' = runTriggers ops (BuildStep ops) n ts b'"
    for n ts b'
    by (rule runTriggers_cong) (simp add: triggerStep_def BuildStep_def BuildStepWith_not_from)
  then have "runTriggers ops (triggerStep ops) = runTriggers ops (BuildStep ops)"
    by (intro ext)
  then show ?thesis
    unfolding CmdFrom_def CmdFromWith_def by (rule arg_cong)
qed



lemma commit_ptr:
  "stateOf (commit ops cid autoCmd comment b) = Some b' \<Longrightarrow>
     config b' = config b \<and> nextAddr b' = nextAddr b"
  by (drule commit_keeps) (simp add: keepsConfig_def)

lemma probeCache_ptr:
  "probeCache ops b = (r, b') \<Longrightarrow> config b' = config b \<and> nextAddr b' = nextAddr b"
  by (drule probeCache_keeps) simp

lemma simple_handlers_ptr:
  "stateOf (CmdOnbuild ops args b) = Some b' \<Longrightarrow> config b' = config b \<and> nextAddr b' = nextAddr b"
  "stateOf (CmdMaintainer ops args b) = Some b' \<Longrightarrow> config b' = config b \<and> nextAddr b' = nextAddr b"
  "stateOf (CmdEntrypoint ops args b) = Some b' \<Longrightarrow> config b' = config b \<and> nextAddr b' = nextAddr b"
  "stateOf (CmdExpose ops args b) = Some b' \<Longrightarrow> config b' = config b \<and> nextAddr b' = nextAddr b"
  "stateOf (CmdUser ops args b) = Some b' \<Longrightarrow> config b' = config b \<and> nextAddr b' = nextAddr b"
  "stateOf (CmdInsert ops args b) = Some b' \<Longrightarrow> config b' = config b \<and> nextAddr b' = nextAddr b"
  "stateOf (CmdVolume ops args b) = Some b' \<Longrightarrow> config b' = config b \<and> nextAddr b' = nextAddr b"
  by (auto simp: CmdOnbuild_def CmdMaintainer_def CmdEntrypoint_def CmdExpose_def CmdUser_def
      CmdInsert_def CmdVolume_def Let_def
      split: if_splits sum.splits dest!: commit_ptr)

lemma commit_ptr_cases:
  "commit ops cid autoCmd comment b = Done b' \<Longrightarrow> config b' = config b \<and> nextAddr b' = nextAddr b"
  "commit ops cid autoCmd comment b = Failed e b' \<Longrightarrow> config b' = config b \<and> nextAddr b' = nextAddr b"
  by (metis commit_ptr stateOf_simps(3)) (metis commit_ptr stateOf_simps(2))

lemma CmdCmd_ptr:
  "stateOf (CmdCmd ops args b) = Some b' \<Longrightarrow> config b' = config b \<and> nextAddr b' = nextAddr b"
  by (auto simp: CmdCmd_def Let_def split: result.splits dest!: commit_ptr_cases)

lemma CmdEnv_ptr:
  "stateOf (CmdEnv ops args b) = Some b' \<Longrightarrow> config b' = config b \<and> nextAddr b' = nextAddr b"
  by (auto simp: CmdEnv_def Let_def split: list.splits go.splits if_splits dest!: commit_ptr)

lemma CmdWorkdir_ptr:
  "stateOf (CmdWorkdir ops args b) = Some b' \<Longrightarrow> config b' = config b \<and> nextAddr b' = nextAddr b"
  by (auto simp: CmdWorkdir_def Let_def split: list.splits if_splits dest!: commit_ptr)


lemma create_ptr:
  "create ops b = Ret (r, b') \<Longrightarrow> config b' = config b \<and> nextAddr b' = nextAddr b"
  by (auto simp: create_def Let_def split: if_splits prod.splits sum.splits list.splits)

lemma run_ptr:
  "run ops c b = (r, b') \<Longrightarrow> config b' = config b \<and> nextAddr b' = nextAddr b"
  by (auto simp: run_def split: prod.splits sum.splits)

lemma CmdRun_ptr:
  "stateOf (CmdRun ops args b) = Some b' \<Longrightarrow> config b' = config b \<and> nextAddr b' = nextAddr b"
  by (auto simp: CmdRun_def Let_def restoreCmd_def unmount_def
      split: if_splits sum.splits prod.splits bool.splits go.splits option.splits
      dest!: probeCache_ptr create_ptr run_ptr commit_ptr)

lemma materialize_ptr:
  "stateOf (materialize ops cmdName cmd orig dest origPath destPath isRemote ad b) = Some b' \<Longrightarrow>
     config b' = config b \<and> nextAddr b' = nextAddr b"
  by (auto simp: materialize_def Let_def unmount_def
      split: if_splits sum.splits prod.splits option.splits dest!: commit_ptr)

lemma addFromContext_ptr:
  "stateOf (addFromContext ops cmdName cmd sums orig dest origPath destPath remoteHash isRemote ad b)
      = Some b' \<Longrightarrow> config b' = config b \<and> nextAddr b' = nextAddr b"
  by (auto simp: addFromContext_def Let_def
      split: if_splits sum.splits prod.splits option.splits go.splits
      dest!: probeCache_ptr materialize_ptr)

lemma runContextCommand_ptr:
  "stateOf (runContextCommand ops args ar ad cmdName b) = Some b' \<Longrightarrow>
     config b' = config b \<and> nextAddr b' = nextAddr b"
  by (auto simp: runContextCommand_def Let_def restoreCmd_def
      split: if_splits sum.splits prod.splits option.splits go.splits list.splits
      dest!: addFromContext_ptr)

lemmas handlers_ptr = simple_handlers_ptr CmdCmd_ptr CmdEnv_ptr CmdWorkdir_ptr CmdRun_ptr
  runContextCommand_ptr [of _ _ False False "''COPY''", folded CmdCopy_def]
  runContextCommand_ptr [of _ _ True True "''ADD''", folded CmdAdd_def]

lemma method_ptr:
  assumes "methodByName (\<lambda>name b. Panicked) ops nm = Some h"
    and "stateOf (h args b1) = Some b2"
  shows "config b2 = config b1 \<and> nextAddr b2 = nextAddr b1"
  using assms
  by (auto simp: methodByName_def split: if_splits dest!: handlers_ptr)

lemma triggerStep_ptr:
  assumes "stateOf (triggerStep ops n step b) = Some b'"
  shows "config b' = config b \<and> nextAddr b' = nextAddr b"
proof -
  define b0 where "b0 = b\<lparr>outStream := outStream b @ [MsgStep n step]\<rparr>"
  have b0: "config b0 = config b" "nextAddr b0 = nextAddr b"
    by (simp_all add: b0_def)
  show ?thesis
  proof (cases "\<exists>t0 t1. SplitN2 step (CHR '' '') = [t0, t1]")
    case False
    with assms show ?thesis
      by (auto simp: triggerStep_def BuildStepWith_def Let_def split: list.splits)
  next
    case True
    then obtain t0 t1 where sp: "SplitN2 step (CHR '' '') = [t0, t1]" by blast
    define i where "i = ToLower (LowerTable ops) (Trim t0 '' '')"
    define nm where "nm = ''Cmd'' @ ToUpper (UpperTable ops) (take 1 i)
        @ ToLower (LowerTable ops) (drop 1 i)"
    show ?thesis
    proof (cases "methodByName (\<lambda>name b. Panicked) ops nm")
      case None
      with assms sp show ?thesis
        by (auto simp: triggerStep_def BuildStepWith_def Let_def i_def nm_def split: if_splits)
    next
      case (Some h)
      from assms sp Some have ne: "i \<noteq> []"
        and r: "stateOf (case h (Trim t1 '' '') b0 of
                   Done b1 \<Rightarrow> Done (b1\<lparr>outStream := outStream b1 @ [MsgArrow (imageID b1)]\<rparr>)
                 | r \<Rightarrow> r) = Some b'"
        by (auto simp: triggerStep_def BuildStepWith_def Let_def i_def nm_def b0_def
            split: if_splits)
      then obtain b2 where "stateOf (h (Trim t1 '' '') b0) = Some b2"
        "config b' = config b2" "nextAddr b' = nextAddr b2"
        by (cases "h (Trim t1 '' '') b0") auto
      with method_ptr [OF Some, of "Trim t1 '' ''" b0 b2] b0 show ?thesis by simp
    qed
  qed
qed

lemma runTriggers_ptr:
  "stateOf (runTriggers ops (triggerStep ops) n ts b) = Some b' \<Longrightarrow>
     config b' = config b \<and> nextAddr b' = nextAddr b"
proof (induction ts arbitrary: n b)
  case Nil
  then show ?case by simp
next
  case (Cons t ts)
  show ?case
  proof (cases "triggerStep ops (OnbuildN n) t b")
    case Panicked
    with Cons.prems show ?thesis by (auto simp: Let_def split: if_splits)
  next
    case (Failed e b1)
    then have "stateOf (triggerStep ops (OnbuildN n) t b) = Some b1" by simp
    from triggerStep_ptr [OF this] Cons.prems Failed show ?thesis
      by (auto simp: Let_def split: if_splits)
  next
    case (Done b1)
    then have "stateOf (triggerStep ops (OnbuildN n) t b) = Some b1" by simp
    from triggerStep_ptr [OF this] Cons.prems Done Cons.IH [of "Suc n" b1] show ?thesis
      by (auto simp: Let_def split: if_splits)
  qed
qed

text \<open>The state \<open>CmdFrom\<close> sets up for an image whose config (if any) was allocated before.\<close>

lemma fromImage_state:
  assumes "\<forall>a. Config img = Some a \<longrightarrow> a < nextAddr b"
    and "fromImage ops img b = (ts, b1)"
    and "c0 = (case Config img of Some a \<Rightarrow> heap b a | None \<Rightarrow> emptyConfig)"
  shows "imageID b1 = ID img
    \<and> config b1 = (case Config img of Some a \<Rightarrow> a | None \<Rightarrow> nextAddr b)
    \<and> ts = OnBuild c0
    \<and> cfg b1 = c0\<lparr>Env := (if Env c0 = [] then [''PATH='' @ DefaultPathEnv ops] else Env c0),
                   OnBuild := []\<rparr>"
proof (cases "Config img")
  case None
  with assms(2,3) show ?thesis
    by (auto simp: fromImage_def Let_def cfg_def updConfig_def emptyConfig_def)
next
  case (Some a)
  with assms(1) have "a \<noteq> nextAddr b" by auto
  with Some assms(2,3) show ?thesis
    by (auto simp: fromImage_def Let_def cfg_def updConfig_def split: if_splits)
qed



end
